theory Spec2Isabelle
  imports Main "HOL-Library.AList"
begin

section \<open>JavaScript values\<close>

text \<open>
  The service of \<^verbatim>\<open>src/services/requestHistoryService.js\<close> handles dynamically
  typed payloads (request and response bodies, header objects, partial configurations).
  They are modelled by a JSON-like value type. Numbers are integers: every number the
  service computes with is a count, a size or a millisecond timestamp. An object is the
  list of its own enumerable properties in enumeration order; its prototype is not
  represented.
\<close>

datatype jsval =
    JUndefined
  | JNull
  | JBool bool
  | JNum int
  | JStr string
  | JArr "jsval list"
  | JObj "(string \<times> jsval) list"

text \<open>ToBoolean, as used by \<^verbatim>\<open>!x\<close>, \<^verbatim>\<open>x && y\<close>, \<^verbatim>\<open>x || y\<close> and \<^verbatim>\<open>x ? a : b\<close>.\<close>

fun truthy :: "jsval \<Rightarrow> bool" where
  "truthy JUndefined = False"
| "truthy JNull = False"
| "truthy (JBool b) = b"
| "truthy (JNum n) = (n \<noteq> 0)"
| "truthy (JStr s) = (s \<noteq> [])"
| "truthy (JArr xs) = True"
| "truthy (JObj kvs) = True"

text \<open>\<^verbatim>\<open>a || b\<close> on values.\<close>

definition js_or :: "jsval \<Rightarrow> jsval \<Rightarrow> jsval" where
  "js_or a b = (if truthy a then a else b)"

text \<open>
  \<^verbatim>\<open>a || d\<close> where \<^verbatim>\<open>a\<close> is a number or missing, and where it is a string or missing:
  a missing value, the number 0 and the empty string are falsy.
\<close>

definition num_or :: "int option \<Rightarrow> int \<Rightarrow> int" where
  "num_or a d = (case a of None \<Rightarrow> d | Some n \<Rightarrow> if n = 0 then d else n)"

definition str_or :: "string option \<Rightarrow> string \<Rightarrow> string" where
  "str_or a d = (case a of None \<Rightarrow> d | Some s \<Rightarrow> if s = [] then d else s)"

text \<open>\<^verbatim>\<open>a ?? d\<close>: only a missing value takes the default.\<close>

definition nullish_or :: "'a option \<Rightarrow> 'a \<Rightarrow> 'a" where
  "nullish_or a d = (case a of None \<Rightarrow> d | Some v \<Rightarrow> v)"

text \<open>
  Reading the property \<^verbatim>\<open>messages\<close> or \<^verbatim>\<open>model\<close>, or a configuration field, of a value
  that is neither \<^verbatim>\<open>null\<close> nor \<^verbatim>\<open>undefined\<close>: an object yields the property's value, or
  \<^verbatim>\<open>undefined\<close> when it has none; strings, arrays, numbers and booleans have no property
  of these names.
\<close>

fun js_get :: "jsval \<Rightarrow> string \<Rightarrow> jsval" where
  "js_get (JObj kvs) k = (case map_of kvs k of Some v \<Rightarrow> v | None \<Rightarrow> JUndefined)"
| "js_get v k = JUndefined"

text \<open>Optional chaining \<^verbatim>\<open>v?.k\<close>.\<close>

definition js_get_opt :: "jsval \<Rightarrow> string \<Rightarrow> jsval" where
  "js_get_opt v k = (if v = JNull \<or> v = JUndefined then JUndefined else js_get v k)"

text \<open>Decimal digits of an array or string index, as a property name.\<close>

fun show_nat :: "nat \<Rightarrow> string" where
  "show_nat n =
     (if n < 10 then [''0123456789'' ! n]
      else show_nat (n div 10) @ [''0123456789'' ! (n mod 10)])"

text \<open>
  The own enumerable properties of a value, in enumeration order: what both
  \<^verbatim>\<open>Object.entries(v)\<close> and the spread \<^verbatim>\<open>{...v}\<close> copy. An array and a string
  contribute their elements under their indices; the other primitives have none.
\<close>

fun own_entries :: "jsval \<Rightarrow> (string \<times> jsval) list" where
  "own_entries (JObj kvs) = kvs"
| "own_entries (JArr xs) = zip (map show_nat [0..<length xs]) xs"
| "own_entries (JStr s) = zip (map show_nat [0..<length s]) (map (\<lambda>c. JStr [c]) s)"
| "own_entries v = []"

text \<open>\<^verbatim>\<open>String.prototype.toLowerCase\<close> on ASCII text (header names are ASCII tokens).\<close>

definition lower_char :: "char \<Rightarrow> char" where
  "lower_char c =
     (case map_of (zip ''ABCDEFGHIJKLMNOPQRSTUVWXYZ'' ''abcdefghijklmnopqrstuvwxyz'') c of
        Some l \<Rightarrow> l
      | None \<Rightarrow> c)"

definition toLowerCase :: "string \<Rightarrow> string" where
  "toLowerCase s = map lower_char s"

text \<open>
  \<^verbatim>\<open>JSON.stringify\<close> is a parameter of the functions that measure a payload. The
  examples use the serializer below: integers in decimal, strings quoted with \<^verbatim>\<open>"\<close> and
  \<^verbatim>\<open>\\<close> escaped, an \<^verbatim>\<open>undefined\<close> array element printed as \<^verbatim>\<open>null\<close>, an
  \<^verbatim>\<open>undefined\<close> property left out.
\<close>

definition show_int :: "int \<Rightarrow> string" where
  "show_int i = (if i < 0 then CHR ''-'' # show_nat (nat (- i)) else show_nat (nat i))"

definition json_escape :: "char \<Rightarrow> string" where
  "json_escape c =
     (if c = CHR 0x22 then [CHR 0x5C, CHR 0x22]
      else if c = CHR 0x5C then [CHR 0x5C, CHR 0x5C]
      else [c])"

definition json_quote :: "string \<Rightarrow> string" where
  "json_quote s = [CHR 0x22] @ concat (map json_escape s) @ [CHR 0x22]"

fun comma_join :: "string list \<Rightarrow> string" where
  "comma_join [] = []"
| "comma_join [s] = s"
| "comma_join (s # t # ss) = s @ '','' @ comma_join (t # ss)"

fun json_stringify :: "jsval \<Rightarrow> string" where
  "json_stringify JUndefined = ''null''"
| "json_stringify JNull = ''null''"
| "json_stringify (JBool b) = (if b then ''true'' else ''false'')"
| "json_stringify (JNum n) = show_int n"
| "json_stringify (JStr s) = json_quote s"
| "json_stringify (JArr xs) = ''['' @ comma_join (map json_stringify xs) @ '']''"
| "json_stringify (JObj kvs) =
     ''{'' @ comma_join
              (map (\<lambda>kv. json_quote (fst kv) @ '':'' @ json_stringify (snd kv))
                 (filter (\<lambda>kv. snd kv \<noteq> JUndefined) kvs)) @ ''}''"

section \<open>Data model\<close>

text \<open>The four tunables the service keeps in memory (\<^verbatim>\<open>this.enableHistoryLogging\<close>, ...).\<close>

record config =
  enableHistoryLogging :: bool
  maxRecordsPerKey :: int
  maxRequestBodySize :: int
  maxResponseBodySize :: int

text \<open>\<^verbatim>\<open>this.defaultConfig\<close> of the constructor.\<close>

definition defaultConfig :: config where
  "defaultConfig =
     \<lparr> enableHistoryLogging = True,
       maxRecordsPerKey = 1000,
       maxRequestBodySize = 5000,
       maxResponseBodySize = 10000 \<rparr>"

text \<open>
  The configuration object kept under the key \<^verbatim>\<open>request_history_config\<close>, as
  \<^verbatim>\<open>JSON.parse\<close> returns it: each field may be missing.
\<close>

record saved_config =
  saved_enableHistoryLogging :: "bool option"
  saved_maxRecordsPerKey :: "int option"
  saved_maxRequestBodySize :: "int option"
  saved_maxResponseBodySize :: "int option"
  saved_updatedAt :: "string option"

text \<open>
  A history record. The fields below \<^verbatim>\<open>startTime\<close> are absent (\<open>None\<close>,
  \<^verbatim>\<open>undefined\<close>) until \<^verbatim>\<open>completeRequest\<close> or \<^verbatim>\<open>failRequest\<close> sets them. The
  spread \<^verbatim>\<open>{...existingRecord, f: v}\<close> is the record update
  \<open>existingRecord\<lparr>f := v\<rparr>\<close>.
\<close>

record history_record =
  requestId :: string
  timestamp :: string
  apiKeyId :: jsval
  apiKeyName :: jsval
  model :: jsval
  status :: string
  requestBody :: jsval
  headers :: jsval
  startTime :: int
  duration :: "int option"
  responseBody :: jsval
  statusCode :: "int option"
  inputTokens :: "int option"
  outputTokens :: "int option"
  cacheCreateTokens :: "int option"
  cacheReadTokens :: "int option"
  totalTokens :: "int option"
  endTime :: "int option"
  error :: "string option"

text \<open>The argument of \<^verbatim>\<open>startRequest\<close>.\<close>

record requestData =
  rq_apiKeyId :: jsval
  rq_apiKeyName :: jsval
  rq_model :: jsval
  rq_requestBody :: jsval
  rq_headers :: jsval

text \<open>The argument of \<^verbatim>\<open>completeRequest\<close>; a token counter is a number or missing.\<close>

record responseData =
  rd_responseBody :: jsval
  rd_statusCode :: "int option"
  rd_inputTokens :: "int option"
  rd_outputTokens :: "int option"
  rd_cacheCreateTokens :: "int option"
  rd_cacheReadTokens :: "int option"

text \<open>The argument of \<^verbatim>\<open>failRequest\<close>.\<close>

record errorData =
  ed_error :: "string option"
  ed_statusCode :: "int option"

text \<open>
  What one call reads from its environment: \<^verbatim>\<open>uuidv4()\<close>,
  \<^verbatim>\<open>new Date().toISOString()\<close> and \<^verbatim>\<open>Date.now()\<close>.
\<close>

record env =
  uuidv4 :: string
  isoNow :: string
  dateNow :: int

section \<open>The store\<close>

text \<open>
  Modelled from the spec: the module \<^verbatim>\<open>../models/redis\<close>, which is not among the sources.
  Its state is the persisted configuration blob, the history records (oldest first),
  and the operations that currently raise (the spec's store and backend errors).
\<close>

datatype redis_op =
    RedisGet
  | RedisSet
  | SaveRequestHistory
  | GetRequestHistory
  | GetRequestHistoryCount
  | RemoveOldestRequestHistory

datatype error = RedisError redis_op

record redis =
  config_blob :: "saved_config option"
  history :: "history_record list"
  failing :: "redis_op list"

text \<open>
  Modelled from the spec: \<^verbatim>\<open>redis.get('request_history_config')\<close>, the spec's
  \<^verbatim>\<open>configGet(key) -> blob|absent\<close>; a store error raises.
\<close>

definition redis_get :: "redis \<Rightarrow> error + saved_config option" where
  "redis_get st =
     (if RedisGet \<in> set (failing st) then Inl (RedisError RedisGet)
      else Inr (config_blob st))"

text \<open>
  Modelled from the spec: \<^verbatim>\<open>redis.set('request_history_config', blob)\<close>, the spec's
  \<^verbatim>\<open>configSet(key, blob)\<close>; a store error raises and writes nothing.
\<close>

definition redis_set :: "saved_config \<Rightarrow> redis \<Rightarrow> error + redis" where
  "redis_set blob st =
     (if RedisSet \<in> set (failing st) then Inl (RedisError RedisSet)
      else Inr (st\<lparr>config_blob := Some blob\<rparr>))"

text \<open>
  Modelled from the spec: the upsert by \<^verbatim>\<open>requestId\<close> of \<^verbatim>\<open>recordPut\<close>. The record of
  the same id is replaced where it stands; a new record is added as the newest.
\<close>

fun upsert :: "history_record \<Rightarrow> history_record list \<Rightarrow> history_record list" where
  "upsert r [] = [r]"
| "upsert r (h # hs) = (if requestId h = requestId r then r # hs else h # upsert r hs)"

text \<open>
  Modelled from the spec: \<^verbatim>\<open>redis.saveRequestHistory(record)\<close>, the spec's
  \<^verbatim>\<open>recordPut(record)\<close> (upsert by \<^verbatim>\<open>requestId\<close>).
\<close>

definition redis_saveRequestHistory :: "history_record \<Rightarrow> redis \<Rightarrow> error + redis" where
  "redis_saveRequestHistory r st =
     (if SaveRequestHistory \<in> set (failing st) then Inl (RedisError SaveRequestHistory)
      else Inr (st\<lparr>history := upsert r (history st)\<rparr>))"

text \<open>
  Modelled from the spec: \<^verbatim>\<open>redis.getRequestHistory(requestId)\<close>, the spec's
  \<^verbatim>\<open>recordGet(requestId) -> record|absent\<close>.
\<close>

definition redis_getRequestHistory :: "string \<Rightarrow> redis \<Rightarrow> error + history_record option" where
  "redis_getRequestHistory rid st =
     (if GetRequestHistory \<in> set (failing st) then Inl (RedisError GetRequestHistory)
      else Inr (find (\<lambda>h. requestId h = rid) (history st)))"

text \<open>
  Modelled from the spec: the records indexed by one owning key, oldest first, which
  \<^verbatim>\<open>recordCount\<close> counts and \<^verbatim>\<open>recordTrimOldest\<close> trims.
\<close>

definition owned :: "jsval \<Rightarrow> history_record list \<Rightarrow> history_record list" where
  "owned k hs = filter (\<lambda>h. apiKeyId h = k) hs"

text \<open>
  Modelled from the spec: \<^verbatim>\<open>redis.getRequestHistoryCount(apiKeyId)\<close>, the spec's
  \<^verbatim>\<open>recordCount(ownerKey) -> int\<close>.
\<close>

definition redis_getRequestHistoryCount :: "jsval \<Rightarrow> redis \<Rightarrow> error + int" where
  "redis_getRequestHistoryCount k st =
     (if GetRequestHistoryCount \<in> set (failing st)
      then Inl (RedisError GetRequestHistoryCount)
      else Inr (int (length (owned k (history st)))))"

text \<open>
  Modelled from the spec: the trim of \<^verbatim>\<open>recordTrimOldest\<close>, which drops the \<open>n\<close> oldest
  records of key \<open>k\<close> (all of them when there are fewer) and keeps the records of other
  keys.
\<close>

fun remove_oldest :: "jsval \<Rightarrow> nat \<Rightarrow> history_record list \<Rightarrow> history_record list" where
  "remove_oldest k n [] = []"
| "remove_oldest k n (h # hs) =
     (if n = 0 then h # hs
      else if apiKeyId h = k then remove_oldest k (n - 1) hs
      else h # remove_oldest k n hs)"

text \<open>
  Modelled from the spec: \<^verbatim>\<open>redis.removeOldestRequestHistory(apiKeyId, n)\<close>, the spec's
  \<^verbatim>\<open>recordTrimOldest(ownerKey, n)\<close>, which removes the \<open>n\<close> oldest records for that
  owner.
\<close>

definition redis_removeOldestRequestHistory :: "jsval \<Rightarrow> int \<Rightarrow> redis \<Rightarrow> error + redis" where
  "redis_removeOldestRequestHistory k n st =
     (if RemoveOldestRequestHistory \<in> set (failing st)
      then Inl (RedisError RemoveOldestRequestHistory)
      else Inr (st\<lparr>history := remove_oldest k (nat n) (history st)\<rparr>))"

section \<open>The service\<close>

subsection \<open>Configuration\<close>

text \<open>
  \<^verbatim>\<open>loadConfigFromRedis\<close>: the blob parsed, or \<^verbatim>\<open>null\<close> when there is none; a failed
  read is caught here and gives \<^verbatim>\<open>null\<close> as well.
\<close>

definition loadConfigFromRedis :: "redis \<Rightarrow> saved_config option" where
  "loadConfigFromRedis st =
     (case redis_get st of
        Inr configData \<Rightarrow> (case configData of Some blob \<Rightarrow> Some blob | None \<Rightarrow> None)
      | Inl e \<Rightarrow> None)"

text \<open>
  \<^verbatim>\<open>saveConfigToRedis\<close>: writes the four in-memory values and the time of writing;
  \<^verbatim>\<open>true\<close> when the write went through, \<^verbatim>\<open>false\<close> when it raised.
\<close>

definition saveConfigToRedis :: "config \<Rightarrow> string \<Rightarrow> redis \<Rightarrow> bool \<times> redis" where
  "saveConfigToRedis this ts st =
     (let config =
            \<lparr> saved_enableHistoryLogging = Some (enableHistoryLogging this),
              saved_maxRecordsPerKey = Some (maxRecordsPerKey this),
              saved_maxRequestBodySize = Some (maxRequestBodySize this),
              saved_maxResponseBodySize = Some (maxResponseBodySize this),
              saved_updatedAt = Some ts \<rparr>
      in case redis_set config st of
           Inr st' \<Rightarrow> (True, st')
         | Inl e \<Rightarrow> (False, st))"

text \<open>
  \<^verbatim>\<open>initializeConfig\<close>, returning the in-memory configuration and the store. Both
  callees catch their own errors, so the \<^verbatim>\<open>catch\<close> of \<^verbatim>\<open>initializeConfig\<close> itself
  (defaults in memory, nothing written) is not a branch any store state reaches.
\<close>

definition initializeConfig :: "string \<Rightarrow> redis \<Rightarrow> config \<times> redis" where
  "initializeConfig ts st =
     (case loadConfigFromRedis st of
        Some savedConfig \<Rightarrow>
          (\<lparr> enableHistoryLogging =
                nullish_or (saved_enableHistoryLogging savedConfig)
                  (enableHistoryLogging defaultConfig),
              maxRecordsPerKey =
                nullish_or (saved_maxRecordsPerKey savedConfig) (maxRecordsPerKey defaultConfig),
              maxRequestBodySize =
                nullish_or (saved_maxRequestBodySize savedConfig)
                  (maxRequestBodySize defaultConfig),
              maxResponseBodySize =
                nullish_or (saved_maxResponseBodySize savedConfig)
                  (maxResponseBodySize defaultConfig) \<rparr>,
           st)
      | None \<Rightarrow>
          (let this =
                 \<lparr> enableHistoryLogging = enableHistoryLogging defaultConfig,
                   maxRecordsPerKey = maxRecordsPerKey defaultConfig,
                   maxRequestBodySize = maxRequestBodySize defaultConfig,
                   maxResponseBodySize = maxResponseBodySize defaultConfig \<rparr>
           in (this, snd (saveConfigToRedis this ts st))))"

text \<open>\<^verbatim>\<open>typeof v\<close>, and the number or boolean a value of that type holds.\<close>

fun typeof :: "jsval \<Rightarrow> string" where
  "typeof JUndefined = ''undefined''"
| "typeof JNull = ''object''"
| "typeof (JBool b) = ''boolean''"
| "typeof (JNum n) = ''number''"
| "typeof (JStr s) = ''string''"
| "typeof (JArr xs) = ''object''"
| "typeof (JObj kvs) = ''object''"

fun the_bool :: "jsval \<Rightarrow> bool" where
  "the_bool (JBool b) = b"
| "the_bool v = False"

fun the_num :: "jsval \<Rightarrow> int" where
  "the_num (JNum n) = n"
| "the_num v = 0"

text \<open>
  \<^verbatim>\<open>updateConfig(newConfig)\<close>, returning its result, the in-memory configuration and
  the store. Reading a property of \<^verbatim>\<open>null\<close> or \<^verbatim>\<open>undefined\<close> raises before anything is
  assigned; the \<^verbatim>\<open>catch\<close> returns \<^verbatim>\<open>false\<close>.
\<close>

definition updateConfig :: "config \<Rightarrow> string \<Rightarrow> jsval \<Rightarrow> redis \<Rightarrow> bool \<times> config \<times> redis" where
  "updateConfig this ts newConfig st =
     (if newConfig = JNull \<or> newConfig = JUndefined then (False, this, st)
      else
        let this1 =
              (if typeof (js_get newConfig ''enableHistoryLogging'') = ''boolean''
               then this\<lparr>enableHistoryLogging :=
                      the_bool (js_get newConfig ''enableHistoryLogging'')\<rparr>
               else this);
            this2 =
              (if typeof (js_get newConfig ''maxRecordsPerKey'') = ''number''
                  \<and> the_num (js_get newConfig ''maxRecordsPerKey'') > 0
               then this1\<lparr>maxRecordsPerKey := the_num (js_get newConfig ''maxRecordsPerKey'')\<rparr>
               else this1);
            this3 =
              (if typeof (js_get newConfig ''maxRequestBodySize'') = ''number''
                  \<and> the_num (js_get newConfig ''maxRequestBodySize'') > 0
               then this2\<lparr>maxRequestBodySize :=
                      the_num (js_get newConfig ''maxRequestBodySize'')\<rparr>
               else this2);
            this4 =
              (if typeof (js_get newConfig ''maxResponseBodySize'') = ''number''
                  \<and> the_num (js_get newConfig ''maxResponseBodySize'') > 0
               then this3\<lparr>maxResponseBodySize :=
                      the_num (js_get newConfig ''maxResponseBodySize'')\<rparr>
               else this3);
            (saved, st') = saveConfigToRedis this4 ts st
        in if saved then (True, this4, st') else (False, this4, st'))"

subsection \<open>Redaction\<close>

definition sensitiveHeaders :: "string list" where
  "sensitiveHeaders =
     [''authorization'', ''x-api-key'', ''cookie'', ''set-cookie'', ''proxy-authorization'']"

text \<open>
  The assignment \<^verbatim>\<open>sanitized[key] = v\<close> on an object created by \<^verbatim>\<open>{}\<close>: it overwrites
  the own property where it stands or adds it last. The name \<^verbatim>\<open>__proto__\<close> is the
  exception: there the assignment runs the setter inherited from
  \<^verbatim>\<open>Object.prototype\<close>, which at most changes the prototype and creates no own
  property.
\<close>

definition js_assign :: "string \<Rightarrow> jsval \<Rightarrow> (string \<times> jsval) list \<Rightarrow> (string \<times> jsval) list" where
  "js_assign key v obj = (if key = ''__proto__'' then obj else AList.update key v obj)"

text \<open>The loop of \<^verbatim>\<open>sanitizeHeaders\<close> over \<^verbatim>\<open>Object.entries(headers)\<close>.\<close>

fun sanitize_loop ::
  "(string \<times> jsval) list \<Rightarrow> (string \<times> jsval) list \<Rightarrow> (string \<times> jsval) list" where
  "sanitize_loop [] sanitized = sanitized"
| "sanitize_loop ((key, v) # rest) sanitized =
     sanitize_loop rest
       (if toLowerCase key \<in> set sensitiveHeaders
        then js_assign key (JStr ''[REDACTED]'') sanitized
        else js_assign key v sanitized)"

definition sanitizeHeaders :: "jsval \<Rightarrow> jsval" where
  "sanitizeHeaders hs =
     (if \<not> truthy hs then JObj []
      else JObj (sanitize_loop (own_entries hs) []))"

subsection \<open>Retention\<close>

text \<open>\<^verbatim>\<open>enforceRecordLimit(apiKeyId)\<close>; every store error is caught and leaves the store as it is.\<close>

definition enforceRecordLimit :: "config \<Rightarrow> jsval \<Rightarrow> redis \<Rightarrow> redis" where
  "enforceRecordLimit this k st =
     (if \<not> truthy k then st
      else
        case redis_getRequestHistoryCount k st of
          Inl e \<Rightarrow> st
        | Inr recordCount \<Rightarrow>
            (let cleanupThreshold = maxRecordsPerKey this + 100 in
             if recordCount > cleanupThreshold then
               (let excessCount = recordCount - maxRecordsPerKey this in
                case redis_removeOldestRequestHistory k excessCount st of
                  Inl e \<Rightarrow> st
                | Inr st' \<Rightarrow> st')
             else st))"

subsection \<open>Recording\<close>

text \<open>
  The record \<^verbatim>\<open>startRequest\<close> builds. \<open>stringify\<close> is \<^verbatim>\<open>JSON.stringify\<close>, whose result's
  length is the serialized size. The spread \<^verbatim>\<open>{...requestBody, messages: m}\<close> defines
  the copied properties and then \<^verbatim>\<open>messages\<close>, whatever their names: no setter runs.
\<close>

definition historyRecord :: "(jsval \<Rightarrow> string) \<Rightarrow> config \<Rightarrow> env \<Rightarrow> requestData \<Rightarrow> history_record" where
  "historyRecord stringify this e rq =
     (let rb = rq_requestBody rq;
          rb' =
            (if truthy rb \<and> int (length (stringify rb)) > maxRequestBodySize this
             then JObj (AList.update ''messages''
                    (if truthy (js_get rb ''messages'')
                     then JStr ''[TRUNCATED - Large Messages]''
                     else js_get rb ''messages'')
                    (own_entries rb))
             else rb)
      in \<lparr> requestId = uuidv4 e,
           timestamp = isoNow e,
           apiKeyId = rq_apiKeyId rq,
           apiKeyName = rq_apiKeyName rq,
           model =
             js_or (rq_model rq)
               (js_or (js_get_opt (rq_requestBody rq) ''model'') (JStr ''unknown'')),
           status = ''pending'',
           requestBody = rb',
           headers = sanitizeHeaders (rq_headers rq),
           startTime = dateNow e,
           duration = None,
           responseBody = JUndefined,
           statusCode = None,
           inputTokens = None,
           outputTokens = None,
           cacheCreateTokens = None,
           cacheReadTokens = None,
           totalTokens = None,
           endTime = None,
           error = None \<rparr>)"

text \<open>
  \<^verbatim>\<open>startRequest(requestData)\<close>: the id, or \<^verbatim>\<open>null\<close> when logging is off or the
  record could not be saved.
\<close>

definition startRequest ::
  "(jsval \<Rightarrow> string) \<Rightarrow> config \<Rightarrow> env \<Rightarrow> requestData \<Rightarrow> redis \<Rightarrow> string option \<times> redis" where
  "startRequest stringify this e rq st =
     (if \<not> enableHistoryLogging this then (None, st)
      else
        case redis_saveRequestHistory (historyRecord stringify this e rq) st of
          Inl err \<Rightarrow> (None, st)
        | Inr st' \<Rightarrow> (Some (uuidv4 e), enforceRecordLimit this (rq_apiKeyId rq) st'))"

text \<open>
  \<^verbatim>\<open>parseInt\<close> of the stored start time: a millisecond timestamp prints as its decimal
  digits, which \<^verbatim>\<open>parseInt\<close> reads back.
\<close>

definition parseInt :: "int \<Rightarrow> int" where
  "parseInt n = n"

text \<open>
  The object \<^verbatim>\<open>updatedRecord\<close> of \<^verbatim>\<open>completeRequest\<close>, at time \<open>now\<close>
  (\<^verbatim>\<open>Date.now()\<close>): the existing record with the fields of a success written over it.
\<close>

definition completedRecord ::
  "(jsval \<Rightarrow> string) \<Rightarrow> config \<Rightarrow> int \<Rightarrow> responseData \<Rightarrow> history_record \<Rightarrow> history_record" where
  "completedRecord stringify this now rd existingRecord =
     (let endT = now;
          dur = endT - parseInt (startTime existingRecord);
          rb = rd_responseBody rd;
          rb' =
            (if truthy rb \<and> int (length (stringify rb)) > maxResponseBodySize this
             then JObj
               [(''type'', JStr ''truncated''),
                (''originalLength'', JNum (int (length (stringify (rd_responseBody rd))))),
                (''preview'', JStr (take 1000 (stringify (rd_responseBody rd)) @ ''...''))]
             else rb)
      in existingRecord
           \<lparr> status := ''success'',
             duration := Some dur,
             responseBody := rb',
             statusCode := rd_statusCode rd,
             inputTokens := Some (num_or (rd_inputTokens rd) 0),
             outputTokens := Some (num_or (rd_outputTokens rd) 0),
             cacheCreateTokens := Some (num_or (rd_cacheCreateTokens rd) 0),
             cacheReadTokens := Some (num_or (rd_cacheReadTokens rd) 0),
             totalTokens :=
               Some (num_or (rd_inputTokens rd) 0
                     + num_or (rd_outputTokens rd) 0
                     + num_or (rd_cacheCreateTokens rd) 0
                     + num_or (rd_cacheReadTokens rd) 0),
             endTime := Some endT \<rparr>)"

text \<open>
  \<^verbatim>\<open>completeRequest(requestId, responseData)\<close>: nothing happens when logging is off,
  the id is \<^verbatim>\<open>null\<close> or empty, the record is not found, or the store raises.
\<close>

definition completeRequest ::
  "(jsval \<Rightarrow> string) \<Rightarrow> config \<Rightarrow> int \<Rightarrow> string option \<Rightarrow> responseData \<Rightarrow> redis \<Rightarrow> redis" where
  "completeRequest stringify this now rid_opt rd st =
     (case rid_opt of
        None \<Rightarrow> st
      | Some rid \<Rightarrow>
          (if \<not> enableHistoryLogging this \<or> rid = [] then st
           else
            (case redis_getRequestHistory rid st of
              Inl e \<Rightarrow> st
            | Inr None \<Rightarrow> st
            | Inr (Some existingRecord) \<Rightarrow>
                (case redis_saveRequestHistory
                        (completedRecord stringify this now rd existingRecord) st of
                   Inl e \<Rightarrow> st
                 | Inr st' \<Rightarrow> st'))))"

text \<open>The object \<^verbatim>\<open>updatedRecord\<close> of \<^verbatim>\<open>failRequest\<close>, at time \<open>now\<close>.\<close>

definition failedRecord :: "int \<Rightarrow> errorData \<Rightarrow> history_record \<Rightarrow> history_record" where
  "failedRecord now ed existingRecord =
     (let endT = now;
          dur = endT - parseInt (startTime existingRecord)
      in existingRecord
           \<lparr> status := ''error'',
             duration := Some dur,
             error := Some (str_or (ed_error ed) ''Unknown error''),
             statusCode := Some (num_or (ed_statusCode ed) 500),
             endTime := Some endT \<rparr>)"

text \<open>\<^verbatim>\<open>failRequest(requestId, errorData)\<close>, with the same early returns.\<close>

definition failRequest :: "config \<Rightarrow> int \<Rightarrow> string option \<Rightarrow> errorData \<Rightarrow> redis \<Rightarrow> redis" where
  "failRequest this now rid_opt ed st =
     (case rid_opt of
        None \<Rightarrow> st
      | Some rid \<Rightarrow>
          (if \<not> enableHistoryLogging this \<or> rid = [] then st
           else
            (case redis_getRequestHistory rid st of
              Inl e \<Rightarrow> st
            | Inr None \<Rightarrow> st
            | Inr (Some existingRecord) \<Rightarrow>
                (case redis_saveRequestHistory (failedRecord now ed existingRecord) st of
                   Inl e \<Rightarrow> st
                 | Inr st' \<Rightarrow> st'))))"

text \<open>\<^verbatim>\<open>getRequestDetails(requestId)\<close>: the record, or \<^verbatim>\<open>null\<close> on a miss or a store error.\<close>

definition getRequestDetails :: "string \<Rightarrow> redis \<Rightarrow> history_record option" where
  "getRequestDetails rid st =
     (case redis_getRequestHistory rid st of
        Inl e \<Rightarrow> None
      | Inr r \<Rightarrow> r)"

section \<open>Specification-side definitions\<close>

text \<open>
  The configuration update as the specification words it: a field that is present and
  well-typed (a boolean for the switch, a number above 0 for a limit) overwrites the
  value in memory, any other leaves it.
\<close>

definition spec_flag :: "jsval \<Rightarrow> bool \<Rightarrow> bool" where
  "spec_flag v old = (case v of JBool b \<Rightarrow> b | _ \<Rightarrow> old)"

definition spec_limit :: "jsval \<Rightarrow> int \<Rightarrow> int" where
  "spec_limit v old = (case v of JNum n \<Rightarrow> if 0 < n then n else old | _ \<Rightarrow> old)"

definition merged_config :: "config \<Rightarrow> jsval \<Rightarrow> config" where
  "merged_config this nc =
     \<lparr> enableHistoryLogging =
         spec_flag (js_get nc ''enableHistoryLogging'') (enableHistoryLogging this),
       maxRecordsPerKey = spec_limit (js_get nc ''maxRecordsPerKey'') (maxRecordsPerKey this),
       maxRequestBodySize =
         spec_limit (js_get nc ''maxRequestBodySize'') (maxRequestBodySize this),
       maxResponseBodySize =
         spec_limit (js_get nc ''maxResponseBodySize'') (maxResponseBodySize this) \<rparr>"

text \<open>The blob that persists a configuration at time \<open>ts\<close>.\<close>

definition blob_of :: "config \<Rightarrow> string \<Rightarrow> saved_config" where
  "blob_of c ts =
     \<lparr> saved_enableHistoryLogging = Some (enableHistoryLogging c),
       saved_maxRecordsPerKey = Some (maxRecordsPerKey c),
       saved_maxRequestBodySize = Some (maxRequestBodySize c),
       saved_maxResponseBodySize = Some (maxResponseBodySize c),
       saved_updatedAt = Some ts \<rparr>"

text \<open>
  Redaction as the specification words it: the value of a header whose name, in lower
  case, is on the denylist is replaced by the marker; any other value passes through.
\<close>

definition redacted :: "string \<Rightarrow> jsval \<Rightarrow> jsval" where
  "redacted key v =
     (if toLowerCase key \<in> set sensitiveHeaders then JStr ''[REDACTED]'' else v)"

definition redact_entry :: "string \<times> jsval \<Rightarrow> string \<times> jsval" where
  "redact_entry kv = (fst kv, redacted (fst kv) (snd kv))"

text \<open>The headers an assignment keeps: all but one named \<^verbatim>\<open>__proto__\<close>.\<close>

definition kept_headers :: "(string \<times> jsval) list \<Rightarrow> (string \<times> jsval) list" where
  "kept_headers kvs = filter (\<lambda>kv. fst kv \<noteq> ''__proto__'') kvs"

text \<open>
  Entries with distinct names, none of them \<^verbatim>\<open>__proto__\<close>, that redaction leaves as they
  are.
\<close>

definition clean :: "(string \<times> jsval) list \<Rightarrow> bool" where
  "clean al \<longleftrightarrow>
     distinct (map fst al) \<and> ''__proto__'' \<notin> fst ` set al
     \<and> list_all (\<lambda>kv. redact_entry kv = kv) al"

text \<open>The records of the other owning keys.\<close>

definition others :: "jsval \<Rightarrow> history_record list \<Rightarrow> history_record list" where
  "others k hs = filter (\<lambda>h. apiKeyId h \<noteq> k) hs"

text \<open>A pending record of the key \<^verbatim>\<open>key-1\<close>, for the examples.\<close>

definition sample_record :: history_record where
  "sample_record =
     \<lparr> requestId = ''req-1'', timestamp = ''2026-01-01T00:00:00.000Z'',
       apiKeyId = JStr ''key-1'', apiKeyName = JStr ''first key'', model = JStr ''m1'',
       status = ''pending'', requestBody = JObj [(''model'', JStr ''m1'')],
       headers = JObj [], startTime = 1000,
       duration = None, responseBody = JUndefined, statusCode = None, inputTokens = None,
       outputTokens = None, cacheCreateTokens = None, cacheReadTokens = None,
       totalTokens = None, endTime = None, error = None \<rparr>"

text \<open>Sample inputs for the examples: an empty store, a clock, a request, a response.\<close>

definition empty_store :: redis where
  "empty_store = \<lparr>config_blob = None, history = [], failing = []\<rparr>"

definition sample_env :: env where
  "sample_env = \<lparr>uuidv4 = ''id-1'', isoNow = ''2026-01-01T00:00:00.000Z'', dateNow = 1000\<rparr>"

definition sample_request :: requestData where
  "sample_request =
     \<lparr> rq_apiKeyId = JStr ''key-1'',
       rq_apiKeyName = JStr ''first key'',
       rq_model = JUndefined,
       rq_requestBody =
         JObj [(''model'', JStr ''m1''),
               (''messages'', JArr [JObj [(''role'', JStr ''user''), (''content'', JStr ''hi'')]])],
       rq_headers = JObj [(''Authorization'', JStr ''Bearer abc''), (''Accept'', JStr ''json'')] \<rparr>"

definition sample_response :: responseData where
  "sample_response =
     \<lparr> rd_responseBody = JObj [(''id'', JStr ''msg-1'')],
       rd_statusCode = Some 200,
       rd_inputTokens = Some 10,
       rd_outputTokens = Some 20,
       rd_cacheCreateTokens = None,
       rd_cacheReadTokens = None \<rparr>"

text \<open>The properties of a value that serialization keeps: those that are not \<^verbatim>\<open>undefined\<close>.\<close>

definition defined_entries :: "jsval \<Rightarrow> (string \<times> jsval) list" where
  "defined_entries v = filter (\<lambda>kv. snd kv \<noteq> JUndefined) (own_entries v)"

text \<open>
  A request whose body has a prompt and no messages, one whose body is an array, and one
  whose messages are \<^verbatim>\<open>null\<close>.
\<close>

definition prompt_request :: requestData where
  "prompt_request =
     sample_request
       \<lparr>rq_requestBody :=
          JObj [(''model'', JStr ''m1''), (''prompt'', JStr ''0123456789012345678901234'')]\<rparr>"

definition array_request :: requestData where
  "array_request =
     sample_request\<lparr>rq_requestBody := JArr [JStr ''0123456789'', JStr ''0123456789'']\<rparr>"

definition null_messages_request :: requestData where
  "null_messages_request =
     sample_request
       \<lparr>rq_requestBody :=
          JObj [(''model'', JStr ''m1''), (''messages'', JNull),
                (''prompt'', JStr ''0123456789012345678901234'')]\<rparr>"

section \<open>Properties of the configuration store\<close>

lemma flag_step:
  "(if typeof v = ''boolean'' then c\<lparr>enableHistoryLogging := the_bool v\<rparr> else c)
     = c\<lparr>enableHistoryLogging := spec_flag v (enableHistoryLogging c)\<rparr>"
  by (cases v) (simp_all add: spec_flag_def)

lemma limit_step1:
  "(if typeof v = ''number'' \<and> the_num v > 0 then c\<lparr>maxRecordsPerKey := the_num v\<rparr> else c)
     = c\<lparr>maxRecordsPerKey := spec_limit v (maxRecordsPerKey c)\<rparr>"
  by (cases v) (simp_all add: spec_limit_def)

lemma limit_step2:
  "(if typeof v = ''number'' \<and> the_num v > 0 then c\<lparr>maxRequestBodySize := the_num v\<rparr> else c)
     = c\<lparr>maxRequestBodySize := spec_limit v (maxRequestBodySize c)\<rparr>"
  by (cases v) (simp_all add: spec_limit_def)

lemma limit_step3:
  "(if typeof v = ''number'' \<and> the_num v > 0 then c\<lparr>maxResponseBodySize := the_num v\<rparr> else c)
     = c\<lparr>maxResponseBodySize := spec_limit v (maxResponseBodySize c)\<rparr>"
  by (cases v) (simp_all add: spec_limit_def)

lemma merged_config_updates:
  "merged_config this nc =
     this\<lparr>enableHistoryLogging :=
            spec_flag (js_get nc ''enableHistoryLogging'') (enableHistoryLogging this),
          maxRecordsPerKey := spec_limit (js_get nc ''maxRecordsPerKey'') (maxRecordsPerKey this),
          maxRequestBodySize :=
            spec_limit (js_get nc ''maxRequestBodySize'') (maxRequestBodySize this),
          maxResponseBodySize :=
            spec_limit (js_get nc ''maxResponseBodySize'') (maxResponseBodySize this)\<rparr>"
  by (cases this) (simp add: merged_config_def)

lemma saveConfigToRedis_eq:
  "saveConfigToRedis c ts st =
     (if RedisSet \<in> set (failing st) then (False, st)
      else (True, st\<lparr>config_blob := Some (blob_of c ts)\<rparr>))"
  by (simp add: saveConfigToRedis_def redis_set_def blob_of_def)

text \<open>
  \<^verbatim>\<open>updateConfig\<close> on anything but \<^verbatim>\<open>null\<close> and \<^verbatim>\<open>undefined\<close>: merge in memory first,
  then save what was merged.
\<close>

lemma updateConfig_merged:
  assumes "nc \<noteq> JNull" "nc \<noteq> JUndefined"
  shows "updateConfig this ts nc st =
           (fst (saveConfigToRedis (merged_config this nc) ts st), merged_config this nc,
            snd (saveConfigToRedis (merged_config this nc) ts st))"
  using assms
  unfolding updateConfig_def Let_def flag_step limit_step1 limit_step2 limit_step3
  by (simp add: merged_config_updates split: prod.splits)

text \<open>
  Claim C6. For every partial configuration passed to \<^verbatim>\<open>updateConfig\<close>, each of the
  four fields that is present and well-typed (a boolean for the logging switch, a number
  strictly above 0 for the three limits) overwrites the value in memory, and each field
  that is absent or invalid leaves it, without rejecting the rest of the update; the
  merged configuration is then persisted in full, and the result is \<^verbatim>\<open>true\<close> exactly
  when the write to the store succeeded.
\<close>

theorem updateConfig_fieldwise:
  assumes "nc \<noteq> JNull" and "nc \<noteq> JUndefined"
  shows "updateConfig this ts nc st =
           (RedisSet \<notin> set (failing st),
            merged_config this nc,
            if RedisSet \<notin> set (failing st)
            then st\<lparr>config_blob := Some (blob_of (merged_config this nc) ts)\<rparr>
            else st)"
  by (simp add: updateConfig_merged [OF assms] saveConfigToRedis_eq)

text \<open>
  \<^verbatim>\<open>updateConfig({maxRecordsPerKey: -5, maxRequestBodySize: 7})\<close> on the defaults: the
  invalid limit is skipped, the valid one is applied and persisted.
\<close>

theorem updateConfig_fieldwise_witness:
  "updateConfig defaultConfig ''2026-01-01T00:00:00.000Z''
     (JObj [(''maxRecordsPerKey'', JNum (- 5)), (''maxRequestBodySize'', JNum 7)])
     \<lparr>config_blob = None, history = [], failing = []\<rparr>
   = (True,
      \<lparr>enableHistoryLogging = True, maxRecordsPerKey = 1000, maxRequestBodySize = 7,
        maxResponseBodySize = 10000\<rparr>,
      \<lparr>config_blob = Some
          \<lparr>saved_enableHistoryLogging = Some True, saved_maxRecordsPerKey = Some 1000,
            saved_maxRequestBodySize = Some 7, saved_maxResponseBodySize = Some 10000,
            saved_updatedAt = Some ''2026-01-01T00:00:00.000Z''\<rparr>,
        history = [], failing = []\<rparr>)"
  using updateConfig_fieldwise [of
      "JObj [(''maxRecordsPerKey'', JNum (- 5)), (''maxRequestBodySize'', JNum 7)]"
      defaultConfig "''2026-01-01T00:00:00.000Z''"
      "\<lparr>config_blob = None, history = [], failing = []\<rparr>"]
  by (simp add: merged_config_def blob_of_def spec_flag_def spec_limit_def defaultConfig_def)

text \<open>
  Claim C10. \<^verbatim>\<open>updateConfig\<close> applies the valid fields to the configuration in memory
  before it attempts to persist: when the write to the store fails, the result is
  \<^verbatim>\<open>false\<close>, the store is as before, and the values in memory are the merged ones, not
  the previous ones.
\<close>

theorem updateConfig_not_rolled_back:
  assumes "nc \<noteq> JNull" and "nc \<noteq> JUndefined" and "RedisSet \<in> set (failing st)"
  shows "updateConfig this ts nc st = (False, merged_config this nc, st)"
  by (simp add: updateConfig_merged [OF assms(1,2)] saveConfigToRedis_eq assms(3))

theorem updateConfig_not_rolled_back_witness:
  "updateConfig defaultConfig ''2026-01-01T00:00:00.000Z''
     (JObj [(''maxRecordsPerKey'', JNum 50)])
     \<lparr>config_blob = None, history = [], failing = [RedisSet]\<rparr>
   = (False,
      \<lparr>enableHistoryLogging = True, maxRecordsPerKey = 50, maxRequestBodySize = 5000,
        maxResponseBodySize = 10000\<rparr>,
      \<lparr>config_blob = None, history = [], failing = [RedisSet]\<rparr>)"
  using updateConfig_not_rolled_back [of
      "JObj [(''maxRecordsPerKey'', JNum 50)]"
      "\<lparr>config_blob = None, history = [], failing = [RedisSet]\<rparr>"
      defaultConfig "''2026-01-01T00:00:00.000Z''"]
  by (simp add: merged_config_def spec_flag_def spec_limit_def defaultConfig_def)

text \<open>
  Claim C3. When the read of the persisted configuration fails, initialization is to
  fall back to the defaults in memory only, without writing them. The code does
  otherwise: \<^verbatim>\<open>loadConfigFromRedis\<close> turns the failed read into \<^verbatim>\<open>null\<close>, which
  \<^verbatim>\<open>initializeConfig\<close> takes for an absent blob, so it saves the defaults. Here the
  store holds a configuration (logging off, 50 records per key), the read raises and
  the write works: the saved configuration is overwritten by the defaults.
\<close>

theorem initializeConfig_failed_read_overwrites:
  "initializeConfig ''2026-01-01T00:00:00.000Z''
     \<lparr>config_blob = Some
         \<lparr>saved_enableHistoryLogging = Some False, saved_maxRecordsPerKey = Some 50,
           saved_maxRequestBodySize = Some 5000, saved_maxResponseBodySize = Some 10000,
           saved_updatedAt = Some ''2025-12-01T00:00:00.000Z''\<rparr>,
       history = [], failing = [RedisGet]\<rparr>
   = (defaultConfig,
      \<lparr>config_blob = Some
          \<lparr>saved_enableHistoryLogging = Some True, saved_maxRecordsPerKey = Some 1000,
            saved_maxRequestBodySize = Some 5000, saved_maxResponseBodySize = Some 10000,
            saved_updatedAt = Some ''2026-01-01T00:00:00.000Z''\<rparr>,
        history = [], failing = [RedisGet]\<rparr>)"
  by (simp add: initializeConfig_def loadConfigFromRedis_def redis_get_def
      saveConfigToRedis_def redis_set_def defaultConfig_def)

section \<open>Properties of the retention enforcer\<close>

lemma owned_remove_oldest: "owned k (remove_oldest k n hs) = drop n (owned k hs)"
  by (induction hs arbitrary: n) (auto simp: owned_def drop_Cons' )

lemma others_remove_oldest: "others k (remove_oldest k n hs) = others k hs"
  by (induction hs arbitrary: n) (auto simp: others_def)

lemma length_owned_others: "length hs = length (owned k hs) + length (others k hs)"
  by (induction hs) (auto simp: owned_def others_def)

lemma enforceRecordLimit_eq:
  assumes "truthy k"
    and "GetRequestHistoryCount \<notin> set (failing st)"
    and "RemoveOldestRequestHistory \<notin> set (failing st)"
  shows "enforceRecordLimit this k st =
           (if int (length (owned k (history st))) > maxRecordsPerKey this + 100
            then st\<lparr>history :=
                   remove_oldest k
                     (nat (int (length (owned k (history st))) - maxRecordsPerKey this))
                     (history st)\<rparr>
            else st)"
  using assms
  by (simp add: enforceRecordLimit_def redis_getRequestHistoryCount_def
      redis_removeOldestRequestHistory_def Let_def)

text \<open>
  Claim C2. For an owning key and the record count the store reports for it, the
  retention enforcer removes records if and only if the count strictly exceeds
  \<^verbatim>\<open>maxRecordsPerKey + 100\<close>; when it does, it removes exactly
  \<^verbatim>\<open>count - maxRecordsPerKey\<close> records, the oldest of that key, and leaves exactly
  \<^verbatim>\<open>maxRecordsPerKey\<close> of them; the records of other keys stay. The key is present,
  the two store operations work, and the limit is not negative.
\<close>

theorem enforceRecordLimit_hysteresis:
  assumes "truthy k"
    and "GetRequestHistoryCount \<notin> set (failing st)"
    and "RemoveOldestRequestHistory \<notin> set (failing st)"
    and "0 \<le> maxRecordsPerKey this"
  shows "(history (enforceRecordLimit this k st) \<noteq> history st
            \<longleftrightarrow> int (length (owned k (history st))) > maxRecordsPerKey this + 100)
       \<and> (int (length (owned k (history st))) > maxRecordsPerKey this + 100 \<longrightarrow>
            owned k (history (enforceRecordLimit this k st))
              = drop (nat (int (length (owned k (history st))) - maxRecordsPerKey this))
                  (owned k (history st))
          \<and> others k (history (enforceRecordLimit this k st)) = others k (history st)
          \<and> int (length (history st)) - int (length (history (enforceRecordLimit this k st)))
              = int (length (owned k (history st))) - maxRecordsPerKey this
          \<and> int (length (owned k (history (enforceRecordLimit this k st))))
              = maxRecordsPerKey this)"
proof -
  let ?c = "int (length (owned k (history st)))"
  let ?m = "maxRecordsPerKey this"
  let ?st' = "enforceRecordLimit this k st"
  note eq = enforceRecordLimit_eq [OF assms(1-3), of this]
  show ?thesis
  proof (cases "?c > ?m + 100")
    case False
    then show ?thesis by (simp add: eq)
  next
    case True
    have h: "history ?st' = remove_oldest k (nat (?c - ?m)) (history st)"
      using True by (simp add: eq)
    have o: "owned k (history ?st') = drop (nat (?c - ?m)) (owned k (history st))"
      by (simp add: h owned_remove_oldest)
    have t: "others k (history ?st') = others k (history st)"
      by (simp add: h others_remove_oldest)
    have l: "int (length (owned k (history ?st'))) = ?m"
      using True assms(4) by (simp add: o)
    have d: "int (length (history st)) - int (length (history ?st')) = ?c - ?m"
      using length_owned_others [of "history st" k] length_owned_others [of "history ?st'" k] l t
      by simp
    have "history ?st' \<noteq> history st"
      using d True by auto
    with True o t l d show ?thesis by simp
  qed
qed

text \<open>
  With the default limit of 1000: 1101 records of the key are cut to 1000, and 1099
  records are left alone.
\<close>

theorem enforceRecordLimit_hysteresis_witness:
  "length (history (enforceRecordLimit defaultConfig (JStr ''key-1'')
      \<lparr>config_blob = None, history = replicate 1101 sample_record, failing = []\<rparr>)) = 1000
   \<and> history (enforceRecordLimit defaultConfig (JStr ''key-1'')
      \<lparr>config_blob = None, history = replicate 1099 sample_record, failing = []\<rparr>)
     = replicate 1099 sample_record"
  using enforceRecordLimit_hysteresis [of "JStr ''key-1''"
      "\<lparr>config_blob = None, history = replicate 1101 sample_record, failing = []\<rparr>"
      defaultConfig]
    enforceRecordLimit_hysteresis [of "JStr ''key-1''"
      "\<lparr>config_blob = None, history = replicate 1099 sample_record, failing = []\<rparr>"
      defaultConfig]
  by (simp add: owned_def others_def defaultConfig_def sample_record_def)

section \<open>Properties of redaction\<close>

lemma redacted_idem: "redacted k (redacted k v) = redacted k v"
  by (simp add: redacted_def)

lemma update_fresh: "k \<notin> fst ` set al \<Longrightarrow> AList.update k v al = al @ [(k, v)]"
  by (induction al) auto

lemma set_update_subset: "set (AList.update k v al) \<subseteq> insert (k, v) (set al)"
  by (induction al) auto

lemma sanitize_loop_step:
  "sanitize_loop ((key, v) # rest) acc = sanitize_loop rest (js_assign key (redacted key v) acc)"
  by (simp add: redacted_def)

text \<open>
  On entries with distinct names the loop appends, in order, the redacted entries it
  keeps.
\<close>

lemma sanitize_loop_distinct:
  "distinct (map fst es) \<Longrightarrow> fst ` set es \<inter> fst ` set acc = {}
     \<Longrightarrow> sanitize_loop es acc = acc @ map redact_entry (kept_headers es)"
proof (induction es arbitrary: acc)
  case Nil
  then show ?case by (simp add: kept_headers_def)
next
  case (Cons e es)
  obtain k v where e: "e = (k, v)" by (cases e)
  have d: "distinct (map fst es)" using Cons.prems by simp
  show ?case
  proof (cases "k = ''__proto__''")
    case True
    have "fst ` set es \<inter> fst ` set acc = {}"
      using Cons.prems by auto
    with d have "sanitize_loop es acc = acc @ map redact_entry (kept_headers es)"
      by (rule Cons.IH)
    then show ?thesis
      unfolding e sanitize_loop_step using True by (simp add: js_assign_def kept_headers_def)
  next
    case False
    from Cons.prems have fresh: "k \<notin> fst ` set acc" by (auto simp: e)
    have "fst ` set es \<inter> fst ` set (acc @ [(k, redacted k v)]) = {}"
      using Cons.prems by (auto simp: e)
    with d have "sanitize_loop es (acc @ [(k, redacted k v)])
        = (acc @ [(k, redacted k v)]) @ map redact_entry (kept_headers es)"
      by (rule Cons.IH)
    then show ?thesis
      unfolding e sanitize_loop_step using False
      by (simp add: js_assign_def update_fresh [OF fresh] redact_entry_def kept_headers_def)
  qed
qed

lemma clean_assign: "clean al \<Longrightarrow> clean (js_assign k (redacted k v) al)"
proof (cases "k = ''__proto__''")
  case True
  then show "clean al \<Longrightarrow> ?thesis" by (simp add: js_assign_def)
next
  case False
  assume c: "clean al"
  have "distinct (map fst (AList.update k (redacted k v) al))"
    using c by (simp add: clean_def distinct_update)
  moreover have "''__proto__'' \<notin> fst ` set (AList.update k (redacted k v) al)"
    using c False by (simp add: clean_def dom_update)
  moreover have "list_all (\<lambda>kv. redact_entry kv = kv) (AList.update k (redacted k v) al)"
    using c set_update_subset [of k "redacted k v" al]
    unfolding clean_def list_all_iff
    by (auto simp: redact_entry_def redacted_idem)
  ultimately show ?thesis
    using False by (simp add: js_assign_def clean_def)
qed

lemma clean_sanitize_loop: "clean acc \<Longrightarrow> clean (sanitize_loop es acc)"
proof (induction es arbitrary: acc)
  case Nil
  then show ?case by simp
next
  case (Cons e es)
  obtain k v where e: "e = (k, v)" by (cases e)
  show ?case unfolding e sanitize_loop_step
    by (rule Cons.IH) (rule clean_assign [OF Cons.prems])
qed

lemma sanitize_loop_clean: "clean al \<Longrightarrow> sanitize_loop al [] = al"
proof -
  assume c: "clean al"
  then have "sanitize_loop al [] = [] @ map redact_entry (kept_headers al)"
    by (intro sanitize_loop_distinct) (simp_all add: clean_def)
  also have "kept_headers al = al"
    using c unfolding kept_headers_def clean_def by (intro filter_True) force
  also have "map redact_entry al = al"
    using c by (intro map_idI) (simp add: clean_def list_all_iff)
  finally show ?thesis by simp
qed

lemma sanitizeHeaders_idem: "sanitizeHeaders (sanitizeHeaders hs) = sanitizeHeaders hs"
proof (cases "truthy hs")
  case False
  then show ?thesis by (simp add: sanitizeHeaders_def)
next
  case True
  have "clean (sanitize_loop (own_entries hs) [])"
    by (rule clean_sanitize_loop) (simp add: clean_def)
  then show ?thesis
    using True by (simp add: sanitizeHeaders_def sanitize_loop_clean)
qed

text \<open>
  Claim C4, amended. \<^verbatim>\<open>sanitizeHeaders\<close> is idempotent on every input. On a headers
  object, a header named \<^verbatim>\<open>__proto__\<close> is dropped; of the others, in the same order and
  under their names as they were written, every header whose name in lower case is on
  the denylist (\<^verbatim>\<open>authorization\<close>, \<^verbatim>\<open>x-api-key\<close>, \<^verbatim>\<open>cookie\<close>, \<^verbatim>\<open>set-cookie\<close>,
  \<^verbatim>\<open>proxy-authorization\<close>) has its value replaced by the marker \<^verbatim>\<open>[REDACTED]\<close>, and
  every other header passes through unchanged. \<^verbatim>\<open>null\<close> and \<^verbatim>\<open>undefined\<close> give the
  empty object.
\<close>

theorem sanitizeHeaders_redacts:
  "sanitizeHeaders (sanitizeHeaders hs) = sanitizeHeaders hs
   \<and> (distinct (map fst kvs) \<longrightarrow>
        sanitizeHeaders (JObj kvs) =
          JObj (map (\<lambda>(key, v). (key, redacted key v))
                  (filter (\<lambda>(key, v). key \<noteq> ''__proto__'') kvs)))
   \<and> sanitizeHeaders JNull = JObj []
   \<and> sanitizeHeaders JUndefined = JObj []"
proof -
  have "sanitizeHeaders (JObj kvs) =
          JObj (map (\<lambda>(key, v). (key, redacted key v))
                  (filter (\<lambda>(key, v). key \<noteq> ''__proto__'') kvs))"
    if "distinct (map fst kvs)"
  proof -
    have "sanitize_loop kvs [] = [] @ map redact_entry (kept_headers kvs)"
      using that by (intro sanitize_loop_distinct) simp_all
    moreover have "redact_entry = (\<lambda>(key, v). (key, redacted key v))"
      by (auto simp: redact_entry_def)
    moreover have "kept_headers kvs = filter (\<lambda>(key, v). key \<noteq> ''__proto__'') kvs"
      unfolding kept_headers_def by (rule filter_cong) auto
    ultimately show ?thesis by (simp add: sanitizeHeaders_def)
  qed
  then show ?thesis
    by (simp add: sanitizeHeaders_idem) (simp add: sanitizeHeaders_def)
qed

text \<open>
  Mixed casing, an array value and a header named \<^verbatim>\<open>__proto__\<close>: the denylisted
  headers are redacted under their own names, \<^verbatim>\<open>Accept\<close> passes through, and
  \<^verbatim>\<open>__proto__\<close> is dropped.
\<close>

theorem sanitizeHeaders_redacts_witness:
  "sanitizeHeaders
     (JObj [(''Authorization'', JStr ''Bearer abc''), (''Accept'', JStr ''json''),
            (''X-API-KEY'', JStr ''k''), (''authorization'', JStr ''Bearer def''),
            (''__proto__'', JArr [JStr ''p'']),
            (''Set-Cookie'', JArr [JStr ''a=1'', JStr ''b=2''])])
   = JObj [(''Authorization'', JStr ''[REDACTED]''), (''Accept'', JStr ''json''),
           (''X-API-KEY'', JStr ''[REDACTED]''), (''authorization'', JStr ''[REDACTED]''),
           (''Set-Cookie'', JStr ''[REDACTED]'')]"
  using sanitizeHeaders_redacts [of JNull
     "[(''Authorization'', JStr ''Bearer abc''), (''Accept'', JStr ''json''),
            (''X-API-KEY'', JStr ''k''), (''authorization'', JStr ''Bearer def''),
            (''__proto__'', JArr [JStr ''p'']),
            (''Set-Cookie'', JArr [JStr ''a=1'', JStr ''b=2''])]"]
  by (simp add: redacted_def toLowerCase_def lower_char_def sensitiveHeaders_def)

text \<open>
  Claim C4 as stated lets every header that is not on the denylist pass through
  unchanged. The name \<^verbatim>\<open>__proto__\<close> is not on the denylist, yet a header of that name
  is not in the result: the assignment \<^verbatim>\<open>sanitized[key] = value\<close> creates no property
  for it.
\<close>

theorem sanitizeHeaders_proto_counterexample:
  "toLowerCase ''__proto__'' \<notin> set sensitiveHeaders
   \<and> sanitizeHeaders (JObj [(''__proto__'', JStr ''x''), (''Accept'', JStr ''json'')])
       = JObj [(''Accept'', JStr ''json'')]
   \<and> map_of (own_entries
        (sanitizeHeaders (JObj [(''__proto__'', JStr ''x''), (''Accept'', JStr ''json'')])))
        ''__proto__'' = None"
  by (simp add: sanitizeHeaders_def js_assign_def toLowerCase_def lower_char_def
      sensitiveHeaders_def)

section \<open>Properties of the recorder: completion and failure\<close>

lemma find_upsert_same:
  "requestId r = rid \<Longrightarrow> find (\<lambda>h. requestId h = rid) (upsert r hs) = Some r"
  by (induction hs) auto

lemma find_requestId: "find (\<lambda>h. requestId h = rid) hs = Some r \<Longrightarrow> requestId r = rid"
  by (induction hs) (auto split: if_splits)

lemma getRequestDetails_found:
  "getRequestDetails rid st = Some r \<Longrightarrow>
     redis_getRequestHistory rid st = Inr (Some r) \<and> requestId r = rid"
  by (auto simp: getRequestDetails_def redis_getRequestHistory_def
      split: if_splits dest: find_requestId)

lemma getRequestDetails_saved:
  assumes "GetRequestHistory \<notin> set (failing st)" and "requestId r = rid"
  shows "getRequestDetails rid (st\<lparr>history := upsert r (history st)\<rparr>) = Some r"
  using assms by (simp add: getRequestDetails_def redis_getRequestHistory_def find_upsert_same)

lemma num_or_zero: "num_or a 0 = nullish_or a 0"
  by (simp add: num_or_def nullish_or_def split: option.splits)

lemma completeRequest_get:
  assumes "enableHistoryLogging this" and "rid \<noteq> []"
    and "GetRequestHistory \<notin> set (failing st)"
    and "SaveRequestHistory \<notin> set (failing st)"
    and "getRequestDetails rid st = Some existing"
  shows "getRequestDetails rid (completeRequest stringify this now (Some rid) rd st) =
           Some (completedRecord stringify this now rd existing)"
proof -
  have id: "requestId (completedRecord stringify this now rd existing) = rid"
    using getRequestDetails_found [OF assms(5)] by (simp add: completedRecord_def Let_def)
  have "completeRequest stringify this now (Some rid) rd st =
          st\<lparr>history := upsert (completedRecord stringify this now rd existing) (history st)\<rparr>"
    using assms(1,2,4) getRequestDetails_found [OF assms(5)]
    by (simp add: completeRequest_def redis_saveRequestHistory_def)
  then show ?thesis
    using getRequestDetails_saved [OF assms(3) id] by simp
qed

lemma failRequest_get:
  assumes "enableHistoryLogging this" and "rid \<noteq> []"
    and "GetRequestHistory \<notin> set (failing st)"
    and "SaveRequestHistory \<notin> set (failing st)"
    and "getRequestDetails rid st = Some existing"
  shows "getRequestDetails rid (failRequest this now (Some rid) ed st) =
           Some (failedRecord now ed existing)"
proof -
  have id: "requestId (failedRecord now ed existing) = rid"
    using getRequestDetails_found [OF assms(5)] by (simp add: failedRecord_def Let_def)
  have "failRequest this now (Some rid) ed st =
          st\<lparr>history := upsert (failedRecord now ed existing) (history st)\<rparr>"
    using assms(1,2,4) getRequestDetails_found [OF assms(5)]
    by (simp add: failRequest_def redis_saveRequestHistory_def)
  then show ?thesis
    using getRequestDetails_saved [OF assms(3) id] by simp
qed

text \<open>
  Claim C1. With logging enabled, a working store and a record found under the id (as
  \<^verbatim>\<open>startRequest\<close> creates it), \<^verbatim>\<open>completeRequest\<close> followed by
  \<^verbatim>\<open>getRequestDetails\<close> yields a record with status \<^verbatim>\<open>success\<close>, the start time
  stored at the start, the end time of the call, their difference as duration, each
  token counter with a missing one taken as 0, and their sum as \<^verbatim>\<open>totalTokens\<close>.
\<close>

theorem completeRequest_then_get:
  assumes "enableHistoryLogging this" and "rid \<noteq> []"
    and "GetRequestHistory \<notin> set (failing st)"
    and "SaveRequestHistory \<notin> set (failing st)"
    and "getRequestDetails rid st = Some existing"
  shows "\<exists>r. getRequestDetails rid (completeRequest stringify this now (Some rid) rd st) = Some r
           \<and> status r = ''success''
           \<and> startTime r = startTime existing
           \<and> endTime r = Some now
           \<and> duration r = Some (now - startTime existing)
           \<and> inputTokens r = Some (nullish_or (rd_inputTokens rd) 0)
           \<and> outputTokens r = Some (nullish_or (rd_outputTokens rd) 0)
           \<and> cacheCreateTokens r = Some (nullish_or (rd_cacheCreateTokens rd) 0)
           \<and> cacheReadTokens r = Some (nullish_or (rd_cacheReadTokens rd) 0)
           \<and> totalTokens r =
               Some (nullish_or (rd_inputTokens rd) 0 + nullish_or (rd_outputTokens rd) 0
                     + nullish_or (rd_cacheCreateTokens rd) 0
                     + nullish_or (rd_cacheReadTokens rd) 0)"
  unfolding completeRequest_get [OF assms]
  by (simp add: completedRecord_def num_or_zero parseInt_def Let_def)

text \<open>The sample request, started on the empty store, is found under its id.\<close>

lemma sample_started:
  "startRequest json_stringify defaultConfig sample_env sample_request empty_store =
     (Some ''id-1'',
      \<lparr>config_blob = None,
        history = [historyRecord json_stringify defaultConfig sample_env sample_request],
        failing = []\<rparr>)"
  by (simp add: startRequest_def redis_saveRequestHistory_def empty_store_def
      enforceRecordLimit_def redis_getRequestHistoryCount_def owned_def defaultConfig_def
      sample_request_def historyRecord_def sample_env_def Let_def)

lemma sample_started_get:
  "getRequestDetails ''id-1''
     (snd (startRequest json_stringify defaultConfig sample_env sample_request empty_store)) =
   Some (historyRecord json_stringify defaultConfig sample_env sample_request)"
  unfolding sample_started
  by (simp add: getRequestDetails_def redis_getRequestHistory_def historyRecord_def Let_def
      sample_env_def)

text \<open>Start at time 1000, complete at time 1500 with 10 input and 20 output tokens.\<close>

theorem completeRequest_then_get_witness:
  "\<exists>r. getRequestDetails ''id-1''
          (completeRequest json_stringify defaultConfig 1500 (Some ''id-1'') sample_response
             (snd (startRequest json_stringify defaultConfig sample_env sample_request
                     empty_store))) = Some r
       \<and> status r = ''success'' \<and> startTime r = 1000 \<and> endTime r = Some 1500
       \<and> duration r = Some 500 \<and> totalTokens r = Some 30"
proof -
  let ?st = "snd (startRequest json_stringify defaultConfig sample_env sample_request empty_store)"
  have t: "startTime (historyRecord json_stringify defaultConfig sample_env sample_request) = 1000"
    by (simp add: historyRecord_def sample_env_def Let_def)
  have e: "enableHistoryLogging defaultConfig"
    by (simp add: defaultConfig_def)
  have i: "''id-1'' \<noteq> []"
    by simp
  have g: "GetRequestHistory \<notin> set (failing ?st)"
    by (simp add: sample_started)
  have s: "SaveRequestHistory \<notin> set (failing ?st)"
    by (simp add: sample_started)
  have n: "nullish_or (rd_inputTokens sample_response) 0
           + nullish_or (rd_outputTokens sample_response) 0
           + nullish_or (rd_cacheCreateTokens sample_response) 0
           + nullish_or (rd_cacheReadTokens sample_response) 0 = 30"
    by (simp add: sample_response_def nullish_or_def)
  from completeRequest_then_get [OF e i g s sample_started_get, of json_stringify 1500
      sample_response]
  show ?thesis
    unfolding t n by auto
qed


text \<open>
  Claim C5, amended. With logging enabled, a working store and a record found under the
  id, \<^verbatim>\<open>failRequest\<close> followed by \<^verbatim>\<open>getRequestDetails\<close> yields a record with status
  \<^verbatim>\<open>error\<close>; its \<^verbatim>\<open>statusCode\<close> is the supplied one when one is supplied and is not 0,
  and 500 otherwise; its \<^verbatim>\<open>error\<close> is the supplied message when one is supplied and is
  not empty, and \<^verbatim>\<open>Unknown error\<close> otherwise.
\<close>

theorem failRequest_then_get:
  assumes "enableHistoryLogging this" and "rid \<noteq> []"
    and "GetRequestHistory \<notin> set (failing st)"
    and "SaveRequestHistory \<notin> set (failing st)"
    and "getRequestDetails rid st = Some existing"
  shows "\<exists>r. getRequestDetails rid (failRequest this now (Some rid) ed st) = Some r
           \<and> status r = ''error''
           \<and> statusCode r =
               Some (case ed_statusCode ed of
                       None \<Rightarrow> 500
                     | Some c \<Rightarrow> if c = 0 then 500 else c)
           \<and> error r =
               Some (case ed_error ed of
                       None \<Rightarrow> ''Unknown error''
                     | Some m \<Rightarrow> if m = [] then ''Unknown error'' else m)
           \<and> endTime r = Some now
           \<and> duration r = Some (now - startTime existing)"
  unfolding failRequest_get [OF assms]
  by (simp add: failedRecord_def num_or_def str_or_def parseInt_def Let_def)

theorem failRequest_then_get_witness:
  "\<exists>r. getRequestDetails ''id-1''
          (failRequest defaultConfig 1500 (Some ''id-1'')
             \<lparr>ed_error = Some ''upstream timeout'', ed_statusCode = None\<rparr>
             (snd (startRequest json_stringify defaultConfig sample_env sample_request
                     empty_store))) = Some r
       \<and> status r = ''error'' \<and> statusCode r = Some 500
       \<and> error r = Some ''upstream timeout'' \<and> duration r = Some 500"
proof -
  let ?st = "snd (startRequest json_stringify defaultConfig sample_env sample_request empty_store)"
  have t: "startTime (historyRecord json_stringify defaultConfig sample_env sample_request) = 1000"
    by (simp add: historyRecord_def sample_env_def Let_def)
  have e: "enableHistoryLogging defaultConfig"
    by (simp add: defaultConfig_def)
  have i: "''id-1'' \<noteq> []"
    by simp
  have g: "GetRequestHistory \<notin> set (failing ?st)"
    by (simp add: sample_started)
  have s: "SaveRequestHistory \<notin> set (failing ?st)"
    by (simp add: sample_started)
  from failRequest_then_get [OF e i g s sample_started_get, of 1500
      "\<lparr>ed_error = Some ''upstream timeout'', ed_statusCode = None\<rparr>"]
  show ?thesis
    unfolding t by auto
qed

text \<open>
  Claim C5 as stated takes the default only when nothing is supplied. A supplied status
  code 0 and a supplied empty message are replaced by the defaults as well.
\<close>

theorem failRequest_falsy_counterexample:
  "\<exists>r. getRequestDetails ''req-1''
          (failRequest defaultConfig 2000 (Some ''req-1'')
             \<lparr>ed_error = Some [], ed_statusCode = Some 0\<rparr>
             \<lparr>config_blob = None, history = [sample_record], failing = []\<rparr>) = Some r
       \<and> statusCode r = Some 500 \<and> statusCode r \<noteq> Some 0
       \<and> error r = Some ''Unknown error'' \<and> error r \<noteq> Some []"
  by (simp add: failRequest_def getRequestDetails_def redis_getRequestHistory_def
      redis_saveRequestHistory_def sample_record_def defaultConfig_def failedRecord_def
      num_or_def str_or_def Let_def)

text \<open>
  Claim C8, amended. With logging enabled, a working store and a record found under the
  id, \<^verbatim>\<open>completeRequest\<close> stores, for a response body that is truthy and whose
  serialized size exceeds \<^verbatim>\<open>maxResponseBodySize\<close>, the summary
  \<^verbatim>\<open>{type: "truncated", originalLength, preview}\<close>, where \<^verbatim>\<open>originalLength\<close> is the
  serialized size and \<^verbatim>\<open>preview\<close> is the first 1000 characters of the serialization
  followed by \<^verbatim>\<open>...\<close>, at most 1003 characters; every other response body is stored
  unmodified.
\<close>

theorem completeRequest_truncates:
  assumes "enableHistoryLogging this" and "rid \<noteq> []"
    and "GetRequestHistory \<notin> set (failing st)"
    and "SaveRequestHistory \<notin> set (failing st)"
    and "getRequestDetails rid st = Some existing"
  shows "\<exists>r. getRequestDetails rid (completeRequest stringify this now (Some rid) rd st) = Some r
           \<and> responseBody r =
               (if truthy (rd_responseBody rd)
                   \<and> int (length (stringify (rd_responseBody rd))) > maxResponseBodySize this
                then JObj
                  [(''type'', JStr ''truncated''),
                   (''originalLength'', JNum (int (length (stringify (rd_responseBody rd))))),
                   (''preview'', JStr (take 1000 (stringify (rd_responseBody rd)) @ ''...''))]
                else rd_responseBody rd)
           \<and> length (take 1000 (stringify (rd_responseBody rd)) @ ''...'') \<le> 1000 + 3"
  unfolding completeRequest_get [OF assms]
  by (simp add: completedRecord_def Let_def)

text \<open>A body of serialized size 14 under a limit of 10.\<close>

theorem completeRequest_truncates_witness:
  "\<exists>r. getRequestDetails ''req-1''
          (completeRequest json_stringify (defaultConfig\<lparr>maxResponseBodySize := 10\<rparr>) 2000
             (Some ''req-1'') sample_response
             \<lparr>config_blob = None, history = [sample_record], failing = []\<rparr>) = Some r
       \<and> responseBody r =
           JObj [(''type'', JStr ''truncated''),
                 (''originalLength'', JNum 14),
                 (''preview'', JStr (json_stringify (JObj [(''id'', JStr ''msg-1'')]) @ ''...''))]"
proof -
  let ?st = "\<lparr>config_blob = None, history = [sample_record], failing = []\<rparr>"
  let ?cfg = "defaultConfig\<lparr>maxResponseBodySize := 10\<rparr>"
  have x: "getRequestDetails ''req-1'' ?st = Some sample_record"
    by (simp add: getRequestDetails_def redis_getRequestHistory_def sample_record_def)
  have e: "enableHistoryLogging ?cfg"
    by (simp add: defaultConfig_def)
  have i: "''req-1'' \<noteq> []" and g: "GetRequestHistory \<notin> set (failing ?st)"
    and s: "SaveRequestHistory \<notin> set (failing ?st)"
    by simp_all
  from completeRequest_truncates [OF e i g s x, of json_stringify 2000 sample_response]
  obtain r where r1: "getRequestDetails ''req-1''
        (completeRequest json_stringify ?cfg 2000 (Some ''req-1'') sample_response ?st) = Some r"
    and r2: "responseBody r =
        (if truthy (rd_responseBody sample_response)
            \<and> int (length (json_stringify (rd_responseBody sample_response)))
                > maxResponseBodySize ?cfg
         then JObj
           [(''type'', JStr ''truncated''),
            (''originalLength'',
               JNum (int (length (json_stringify (rd_responseBody sample_response))))),
            (''preview'',
               JStr (take 1000 (json_stringify (rd_responseBody sample_response)) @ ''...''))]
         else rd_responseBody sample_response)"
    by blast
  have "responseBody r =
          JObj [(''type'', JStr ''truncated''),
                (''originalLength'', JNum 14),
                (''preview'', JStr (json_stringify (JObj [(''id'', JStr ''msg-1'')]) @ ''...''))]"
    unfolding r2
    by (simp add: sample_response_def defaultConfig_def json_quote_def json_escape_def)
  with r1 show ?thesis by blast
qed

text \<open>
  Claim C8 as stated covers every body whose serialized size exceeds the limit. The
  empty string serializes to two characters; under a limit of 1 it is stored as it is,
  not as a summary: the guard \<^verbatim>\<open>responseBody &&\<close> skips a falsy body.
\<close>

theorem completeRequest_falsy_body_counterexample:
  "int (length (json_stringify (JStr [])))
     > maxResponseBodySize (defaultConfig\<lparr>maxResponseBodySize := 1\<rparr>)
   \<and> (\<exists>r. getRequestDetails ''req-1''
          (completeRequest json_stringify (defaultConfig\<lparr>maxResponseBodySize := 1\<rparr>) 2000
             (Some ''req-1'') (sample_response\<lparr>rd_responseBody := JStr []\<rparr>)
             \<lparr>config_blob = None, history = [sample_record], failing = []\<rparr>) = Some r
       \<and> responseBody r = JStr [])"
  by (simp add: completeRequest_def getRequestDetails_def redis_getRequestHistory_def
      redis_saveRequestHistory_def sample_record_def defaultConfig_def completedRecord_def
      sample_response_def json_quote_def Let_def)

section \<open>Properties of the recorder: start\<close>

lemma upsert_fresh: "\<forall>h\<in>set hs. requestId h \<noteq> requestId r \<Longrightarrow> upsert r hs = hs @ [r]"
  by (induction hs) auto

lemma remove_oldest_zero: "remove_oldest k 0 hs = hs"
  by (cases hs) simp_all

lemma remove_oldest_keeps_newest:
  "n \<le> length (owned k hs) \<Longrightarrow> remove_oldest k n (hs @ [r]) = remove_oldest k n hs @ [r]"
proof (induction hs arbitrary: n)
  case Nil
  then show ?case by (simp add: owned_def)
next
  case (Cons h hs)
  show ?case
  proof (cases "n = 0")
    case True
    then show ?thesis by simp
  next
    case False
    then show ?thesis
      using Cons.prems Cons.IH [of "n - 1"] Cons.IH [of n]
      by (auto simp: owned_def)
  qed
qed

lemma set_remove_oldest: "set (remove_oldest k n hs) \<subseteq> set hs"
  by (induction hs arbitrary: n) auto

lemma find_append_fresh: "\<forall>h\<in>set xs. \<not> P h \<Longrightarrow> find P (xs @ ys) = find P ys"
  by (induction xs) auto

lemma enforceRecordLimit_history:
  assumes "0 < maxRecordsPerKey this"
  shows "\<exists>n. (n = 0 \<or> n < length (owned k (history st)))
             \<and> history (enforceRecordLimit this k st) = remove_oldest k n (history st)"
proof (cases "truthy k \<and> GetRequestHistoryCount \<notin> set (failing st)
                \<and> RemoveOldestRequestHistory \<notin> set (failing st)
                \<and> int (length (owned k (history st))) > maxRecordsPerKey this + 100")
  case True
  let ?n = "nat (int (length (owned k (history st))) - maxRecordsPerKey this)"
  have "history (enforceRecordLimit this k st) = remove_oldest k ?n (history st)"
    using True
    by (simp add: enforceRecordLimit_def redis_getRequestHistoryCount_def
        redis_removeOldestRequestHistory_def Let_def)
  moreover have "?n < length (owned k (history st))"
    using True assms by linarith
  ultimately show ?thesis by blast
next
  case False
  then have "history (enforceRecordLimit this k st) = history st"
    by (auto simp: enforceRecordLimit_def redis_getRequestHistoryCount_def
        redis_removeOldestRequestHistory_def Let_def)
  then show ?thesis
    using remove_oldest_zero [of k "history st"] by (intro exI [of _ 0]) simp
qed

text \<open>
  With logging enabled, a working store, a fresh id and a positive limit,
  \<^verbatim>\<open>startRequest\<close> returns the id, and the record it built is the one found under
  that id afterwards: retention never removes the newest record of the key.
\<close>

lemma startRequest_stores:
  assumes "enableHistoryLogging this"
    and "SaveRequestHistory \<notin> set (failing st)"
    and "GetRequestHistory \<notin> set (failing st)"
    and "\<forall>h\<in>set (history st). requestId h \<noteq> uuidv4 e"
    and "0 < maxRecordsPerKey this"
  shows "fst (startRequest stringify this e rq st) = Some (uuidv4 e)"
    and "getRequestDetails (uuidv4 e) (snd (startRequest stringify this e rq st)) =
           Some (historyRecord stringify this e rq)"
proof -
  let ?r = "historyRecord stringify this e rq"
  let ?k = "rq_apiKeyId rq"
  let ?st1 = "st\<lparr>history := history st @ [?r]\<rparr>"
  have id: "requestId ?r = uuidv4 e"
    by (simp add: historyRecord_def Let_def)
  have "upsert ?r (history st) = history st @ [?r]"
    using assms(4) by (intro upsert_fresh) (simp add: id)
  then have start: "startRequest stringify this e rq st =
      (Some (uuidv4 e), enforceRecordLimit this ?k ?st1)"
    using assms(1,2) by (simp add: startRequest_def redis_saveRequestHistory_def)
  show "fst (startRequest stringify this e rq st) = Some (uuidv4 e)"
    by (simp add: start)
  obtain n where n: "n = 0 \<or> n < length (owned ?k (history ?st1))"
    and h: "history (enforceRecordLimit this ?k ?st1) = remove_oldest ?k n (history ?st1)"
    using enforceRecordLimit_history [OF assms(5), of ?k ?st1] by blast
  have "n \<le> length (owned ?k (history st))"
    using n by (auto simp: owned_def split: if_splits)
  then have kept: "history (enforceRecordLimit this ?k ?st1)
      = remove_oldest ?k n (history st) @ [?r]"
    by (simp add: h remove_oldest_keeps_newest)
  have f: "failing (enforceRecordLimit this ?k ?st1) = failing st"
    by (simp add: enforceRecordLimit_def redis_getRequestHistoryCount_def
        redis_removeOldestRequestHistory_def Let_def)
  have "\<forall>h\<in>set (remove_oldest ?k n (history st)). \<not> requestId h = uuidv4 e"
    using assms(4) set_remove_oldest [of ?k n "history st"] by blast
  then have "find (\<lambda>h. requestId h = uuidv4 e) (remove_oldest ?k n (history st) @ [?r]) = Some ?r"
    by (simp add: find_append_fresh id)
  then show "getRequestDetails (uuidv4 e) (snd (startRequest stringify this e rq st)) = Some ?r"
    using assms(3) by (simp add: start getRequestDetails_def redis_getRequestHistory_def kept f)
qed


lemma requestBody_historyRecord:
  "requestBody (historyRecord stringify this e rq) =
     (if truthy (rq_requestBody rq)
         \<and> int (length (stringify (rq_requestBody rq))) > maxRequestBodySize this
      then JObj (AList.update ''messages''
             (if truthy (js_get (rq_requestBody rq) ''messages'')
              then JStr ''[TRUNCATED - Large Messages]''
              else js_get (rq_requestBody rq) ''messages'')
             (own_entries (rq_requestBody rq)))
      else rq_requestBody rq)"
  by (simp add: historyRecord_def Let_def)

lemma js_get_update:
  "js_get (JObj (AList.update k v kvs)) k' = (if k' = k then v else js_get (JObj kvs) k')"
  by (simp add: update_conv')

lemma truthy_js_get_key: "truthy (js_get (JObj kvs) k) \<Longrightarrow> k \<in> fst ` set kvs"
  by (cases "map_of kvs k") (auto dest: map_of_SomeD simp: rev_image_eqI)

lemma update_same_value: "AList.update k (js_get (JObj kvs) k) kvs =
    (if k \<in> fst ` set kvs then kvs else kvs @ [(k, JUndefined)])"
proof (cases "map_of kvs k")
  case None
  then have "k \<notin> fst ` set kvs" by (simp add: map_of_eq_None_iff)
  then show ?thesis using None by (simp add: update_fresh)
next
  case (Some v)
  then have "k \<in> fst ` set kvs" by (auto dest: map_of_SomeD simp: rev_image_eqI)
  then show ?thesis using Some by (simp add: update_triv)
qed

text \<open>
  Claim C7, amended. With logging enabled (a working store, a fresh id, a positive
  record limit), when the request body is an object whose serialized size exceeds
  \<^verbatim>\<open>maxRequestBodySize\<close> and whose \<^verbatim>\<open>messages\<close> field is truthy, the stored record's
  body has \<^verbatim>\<open>messages\<close> replaced by the marker \<^verbatim>\<open>[TRUNCATED - Large Messages]\<close>, the
  same property names in the same order, and every other field as supplied; a body
  whose serialized size does not exceed the limit is stored unmodified.
\<close>

theorem startRequest_truncates_messages:
  assumes "enableHistoryLogging this"
    and "SaveRequestHistory \<notin> set (failing st)"
    and "GetRequestHistory \<notin> set (failing st)"
    and "\<forall>h\<in>set (history st). requestId h \<noteq> uuidv4 e"
    and "0 < maxRecordsPerKey this"
  shows "\<exists>r. getRequestDetails (uuidv4 e) (snd (startRequest stringify this e rq st)) = Some r
           \<and> (\<forall>kvs. rq_requestBody rq = JObj kvs
                  \<and> int (length (stringify (JObj kvs))) > maxRequestBodySize this
                  \<and> truthy (js_get (JObj kvs) ''messages'')
                \<longrightarrow> requestBody r =
                      JObj (AList.update ''messages'' (JStr ''[TRUNCATED - Large Messages]'') kvs)
                  \<and> js_get (requestBody r) ''messages'' = JStr ''[TRUNCATED - Large Messages]''
                  \<and> map fst (own_entries (requestBody r)) = map fst kvs
                  \<and> (\<forall>k. k \<noteq> ''messages''
                         \<longrightarrow> js_get (requestBody r) k = js_get (JObj kvs) k))
           \<and> (\<not> int (length (stringify (rq_requestBody rq))) > maxRequestBodySize this
                \<longrightarrow> requestBody r = rq_requestBody rq)"
proof -
  let ?r = "historyRecord stringify this e rq"
  have big: "requestBody ?r =
        JObj (AList.update ''messages'' (JStr ''[TRUNCATED - Large Messages]'') kvs)
      \<and> js_get (requestBody ?r) ''messages'' = JStr ''[TRUNCATED - Large Messages]''
      \<and> map fst (own_entries (requestBody ?r)) = map fst kvs
      \<and> (\<forall>k. k \<noteq> ''messages'' \<longrightarrow> js_get (requestBody ?r) k = js_get (JObj kvs) k)"
    if b: "rq_requestBody rq = JObj kvs"
      and l: "int (length (stringify (JObj kvs))) > maxRequestBodySize this"
      and m: "truthy (js_get (JObj kvs) ''messages'')" for kvs
  proof -
    have rb: "requestBody ?r =
        JObj (AList.update ''messages'' (JStr ''[TRUNCATED - Large Messages]'') kvs)"
      unfolding requestBody_historyRecord using b l m by simp
    have "''messages'' \<in> fst ` set kvs"
      using m by (rule truthy_js_get_key)
    then have "map fst (AList.update ''messages'' (JStr ''[TRUNCATED - Large Messages]'') kvs)
        = map fst kvs"
      by (simp add: update_keys)
    then show ?thesis
      unfolding rb by (simp add: js_get_update del: js_get.simps)
  qed
  have small: "requestBody ?r = rq_requestBody rq"
    if "\<not> int (length (stringify (rq_requestBody rq))) > maxRequestBodySize this"
    unfolding requestBody_historyRecord using that by simp
  show ?thesis
    unfolding startRequest_stores(2) [OF assms]
    using big small by blast
qed

text \<open>The index names of an array or a string are digits, so none is \<^verbatim>\<open>messages\<close>.\<close>

lemma digit_mem: "i < 10 \<Longrightarrow> ''0123456789'' ! i \<in> set ''0123456789''"
  by (rule nth_mem) simp

lemma show_nat_digits: "set (show_nat n) \<subseteq> set ''0123456789''"
proof (induction n rule: show_nat.induct)
  case (1 n)
  show ?case
  proof (cases "n < 10")
    case True
    have "show_nat n = [''0123456789'' ! n]"
      using True by (subst show_nat.simps) (simp del: show_nat.simps)
    then show ?thesis
      using digit_mem [OF True] by (simp del: show_nat.simps)
  next
    case False
    have "show_nat n = show_nat (n div 10) @ [''0123456789'' ! (n mod 10)]"
      using False by (subst show_nat.simps) (simp del: show_nat.simps)
    moreover have "''0123456789'' ! (n mod 10) \<in> set ''0123456789''"
      by (rule digit_mem) simp
    ultimately show ?thesis
      using "1.IH" [OF False] by (simp del: show_nat.simps)
  qed
qed

lemma messages_not_index: "show_nat n \<noteq> ''messages''"
proof
  assume "show_nat n = ''messages''"
  then have "CHR ''m'' \<in> set (show_nat n)"
    by (simp del: show_nat.simps)
  then have "CHR ''m'' \<in> set ''0123456789''"
    using show_nat_digits by blast
  then show False by simp
qed

lemma own_entries_no_messages:
  assumes "\<forall>kvs. v \<noteq> JObj kvs"
  shows "''messages'' \<notin> fst ` set (own_entries v)"
proof
  assume "''messages'' \<in> fst ` set (own_entries v)"
  then obtain x where x: "(''messages'', x) \<in> set (own_entries v)" by force
  show False
  proof (cases v)
    case (JArr xs)
    with x have "''messages'' \<in> set (map show_nat [0..<length xs])"
      by (auto dest: set_zip_leftD simp del: show_nat.simps)
    then obtain i where "show_nat i = ''messages''"
      by (auto simp del: show_nat.simps)
    with messages_not_index show False by blast
  next
    case (JStr str)
    with x have "''messages'' \<in> set (map show_nat [0..<length str])"
      by (auto dest: set_zip_leftD simp del: show_nat.simps)
    then obtain i where "show_nat i = ''messages''"
      by (auto simp del: show_nat.simps)
    with messages_not_index show False by blast
  next
    case (JObj kvs)
    then show False using assms by simp
  qed (use x in simp_all)
qed

text \<open>
  Claim C9, amended. With logging enabled (a working store, a fresh id, a positive
  record limit), when the serialized size of the request body exceeds
  \<^verbatim>\<open>maxRequestBodySize\<close> and the body has no truthy \<^verbatim>\<open>messages\<close> field, no marker is
  inserted. A falsy body is stored as supplied. An object body is stored with every
  property as supplied: the same object when it has a \<^verbatim>\<open>messages\<close> property, and
  otherwise its properties followed by \<^verbatim>\<open>messages: undefined\<close>, which serialization
  drops, so that it serializes to the same text and every property reads the same. A
  truthy body that is not an object (an array, a string, a number, \<^verbatim>\<open>true\<close>) is stored
  as the object of its indexed elements followed by \<^verbatim>\<open>messages: undefined\<close>.
\<close>

theorem startRequest_without_messages:
  assumes "enableHistoryLogging this"
    and "SaveRequestHistory \<notin> set (failing st)"
    and "GetRequestHistory \<notin> set (failing st)"
    and "\<forall>h\<in>set (history st). requestId h \<noteq> uuidv4 e"
    and "0 < maxRecordsPerKey this"
    and "int (length (stringify (rq_requestBody rq))) > maxRequestBodySize this"
    and "\<not> truthy (js_get (rq_requestBody rq) ''messages'')"
  shows "\<exists>r. getRequestDetails (uuidv4 e) (snd (startRequest stringify this e rq st)) = Some r
           \<and> (\<not> truthy (rq_requestBody rq) \<longrightarrow> requestBody r = rq_requestBody rq)
           \<and> (\<forall>kvs. rq_requestBody rq = JObj kvs \<longrightarrow>
                 requestBody r =
                   (if ''messages'' \<in> fst ` set kvs then JObj kvs
                    else JObj (kvs @ [(''messages'', JUndefined)]))
                 \<and> defined_entries (requestBody r) = defined_entries (rq_requestBody rq)
                 \<and> json_stringify (requestBody r) = json_stringify (rq_requestBody rq)
                 \<and> (\<forall>k. js_get (requestBody r) k = js_get (rq_requestBody rq) k))
           \<and> (truthy (rq_requestBody rq) \<and> (\<forall>kvs. rq_requestBody rq \<noteq> JObj kvs) \<longrightarrow>
                 requestBody r =
                   JObj (own_entries (rq_requestBody rq) @ [(''messages'', JUndefined)]))"
proof -
  let ?r = "historyRecord stringify this e rq"
  let ?b = "rq_requestBody rq"
  have falsy: "requestBody ?r = ?b" if "\<not> truthy ?b"
    unfolding requestBody_historyRecord using that by simp
  have obj: "requestBody ?r =
        (if ''messages'' \<in> fst ` set kvs then JObj kvs
         else JObj (kvs @ [(''messages'', JUndefined)]))
      \<and> defined_entries (requestBody ?r) = defined_entries ?b
      \<and> json_stringify (requestBody ?r) = json_stringify ?b
      \<and> (\<forall>k. js_get (requestBody ?r) k = js_get ?b k)"
    if b: "?b = JObj kvs" for kvs
  proof -
    have "requestBody ?r = JObj (AList.update ''messages'' (js_get (JObj kvs) ''messages'') kvs)"
      unfolding requestBody_historyRecord using assms(6,7) b by simp
    then have rb: "requestBody ?r =
        (if ''messages'' \<in> fst ` set kvs then JObj kvs
         else JObj (kvs @ [(''messages'', JUndefined)]))"
      by (simp only: update_same_value if_distrib [of JObj])
    have d: "defined_entries (requestBody ?r) = defined_entries (JObj kvs)"
      unfolding rb by (simp add: defined_entries_def)
    have j: "json_stringify (requestBody ?r) = json_stringify (JObj kvs)"
      unfolding rb by simp
    have g: "js_get (requestBody ?r) k = js_get (JObj kvs) k" for k
    proof (cases "''messages'' \<in> fst ` set kvs")
      case True
      then show ?thesis unfolding rb by simp
    next
      case False
      then have "map_of kvs ''messages'' = None"
        by (simp add: map_of_eq_None_iff)
      then show ?thesis
        unfolding rb using False by (cases "map_of kvs k") (auto simp: map_add_def)
    qed
    show ?thesis
      using rb d j g by (simp add: b del: json_stringify.simps)
  qed
  have other: "requestBody ?r = JObj (own_entries ?b @ [(''messages'', JUndefined)])"
    if t: "truthy ?b" and n: "\<forall>kvs. ?b \<noteq> JObj kvs"
  proof -
    have u: "js_get ?b ''messages'' = JUndefined"
      using n by (cases ?b) simp_all
    have "requestBody ?r = JObj (AList.update ''messages'' JUndefined (own_entries ?b))"
      unfolding requestBody_historyRecord using assms(6) t by (simp add: u)
    then show ?thesis
      by (simp add: update_fresh [OF own_entries_no_messages [OF n]])
  qed
  show ?thesis
    unfolding startRequest_stores(2) [OF assms(1-5)]
    using falsy obj other by blast
qed

lemma empty_store_ready:
  "SaveRequestHistory \<notin> set (failing empty_store)"
  "GetRequestHistory \<notin> set (failing empty_store)"
  "\<forall>h\<in>set (history empty_store). requestId h \<noteq> uuidv4 sample_env"
  by (simp_all add: empty_store_def)

lemma sample_sizes:
  "length (json_stringify (rq_requestBody sample_request)) = 58"
  "length (json_stringify (rq_requestBody prompt_request)) = 51"
  "length (json_stringify (rq_requestBody null_messages_request)) = 67"
  by (simp_all add: sample_request_def prompt_request_def null_messages_request_def
      json_quote_def json_escape_def)

text \<open>
  The sample body has serialized size 58: under a limit of 20 its messages are replaced,
  under the default limit of 5000 it is stored as it is.
\<close>

theorem startRequest_truncates_messages_witness:
  "(\<exists>r. getRequestDetails ''id-1''
          (snd (startRequest json_stringify (defaultConfig\<lparr>maxRequestBodySize := 20\<rparr>)
                  sample_env sample_request empty_store)) = Some r
       \<and> requestBody r =
           JObj [(''model'', JStr ''m1''), (''messages'', JStr ''[TRUNCATED - Large Messages]'')])
   \<and> (\<exists>r. getRequestDetails ''id-1''
          (snd (startRequest json_stringify defaultConfig sample_env sample_request
                  empty_store)) = Some r
       \<and> requestBody r = rq_requestBody sample_request)"
proof -
  let ?cfg = "defaultConfig\<lparr>maxRequestBodySize := 20\<rparr>"
  let ?kvs = "[(''model'', JStr ''m1''),
               (''messages'', JArr [JObj [(''role'', JStr ''user''), (''content'', JStr ''hi'')]])]"
  have id: "uuidv4 sample_env = ''id-1''"
    by (simp add: sample_env_def)
  have b: "rq_requestBody sample_request = JObj ?kvs"
    by (simp add: sample_request_def)
  have e: "enableHistoryLogging ?cfg" "0 < maxRecordsPerKey ?cfg"
    "enableHistoryLogging defaultConfig" "0 < maxRecordsPerKey defaultConfig"
    by (simp_all add: defaultConfig_def)
  have big: "int (length (json_stringify (JObj ?kvs))) > maxRequestBodySize ?cfg"
    using sample_sizes(1) by (simp add: b defaultConfig_def)
  have small: "\<not> int (length (json_stringify (rq_requestBody sample_request)))
                  > maxRequestBodySize defaultConfig"
    by (simp add: sample_sizes(1) defaultConfig_def)
  have m: "truthy (js_get (JObj ?kvs) ''messages'')"
    by simp
  from startRequest_truncates_messages [OF e(1) empty_store_ready e(2), of json_stringify
      sample_request]
  have first: "\<exists>r. getRequestDetails ''id-1''
          (snd (startRequest json_stringify ?cfg sample_env sample_request empty_store)) = Some r
       \<and> requestBody r =
           JObj [(''model'', JStr ''m1''), (''messages'', JStr ''[TRUNCATED - Large Messages]'')]"
    unfolding id using b big m by fastforce
  from startRequest_truncates_messages [OF e(3) empty_store_ready e(4), of json_stringify
      sample_request]
  have second: "\<exists>r. getRequestDetails ''id-1''
          (snd (startRequest json_stringify defaultConfig sample_env sample_request
                  empty_store)) = Some r
       \<and> requestBody r = rq_requestBody sample_request"
    unfolding id using small by blast
  from first second show ?thesis by blast
qed

text \<open>
  Claim C7 as stated promises the marker for every body over the limit. A body of
  serialized size 67 whose \<^verbatim>\<open>messages\<close> field is \<^verbatim>\<open>null\<close>, under a limit of 20, is
  stored with \<^verbatim>\<open>messages\<close> still \<^verbatim>\<open>null\<close>: the marker is written only over a truthy
  \<^verbatim>\<open>messages\<close>.
\<close>

theorem startRequest_null_messages_counterexample:
  "int (length (json_stringify (rq_requestBody null_messages_request)))
     > maxRequestBodySize (defaultConfig\<lparr>maxRequestBodySize := 20\<rparr>)
   \<and> (\<exists>r. getRequestDetails ''id-1''
          (snd (startRequest json_stringify (defaultConfig\<lparr>maxRequestBodySize := 20\<rparr>)
                  sample_env null_messages_request empty_store)) = Some r
       \<and> requestBody r = rq_requestBody null_messages_request
       \<and> js_get (requestBody r) ''messages'' = JNull
       \<and> js_get (requestBody r) ''messages'' \<noteq> JStr ''[TRUNCATED - Large Messages]'')"
proof -
  let ?cfg = "defaultConfig\<lparr>maxRequestBodySize := 20\<rparr>"
  have e: "enableHistoryLogging ?cfg" "0 < maxRecordsPerKey ?cfg"
    by (simp_all add: defaultConfig_def)
  have big: "int (length (json_stringify (rq_requestBody null_messages_request)))
      > maxRequestBodySize ?cfg"
    by (simp add: sample_sizes(3) defaultConfig_def)
  have got: "getRequestDetails ''id-1''
      (snd (startRequest json_stringify ?cfg sample_env null_messages_request empty_store)) =
      Some (historyRecord json_stringify ?cfg sample_env null_messages_request)"
    using startRequest_stores(2) [OF e(1) empty_store_ready e(2), of json_stringify
        null_messages_request]
    by (simp add: sample_env_def)
  have rb: "requestBody (historyRecord json_stringify ?cfg sample_env null_messages_request)
      = rq_requestBody null_messages_request"
    unfolding requestBody_historyRecord using big
    by (simp add: null_messages_request_def)
  have "js_get (rq_requestBody null_messages_request) ''messages'' = JNull"
    by (simp add: null_messages_request_def)
  with big got rb show ?thesis by simp
qed

text \<open>
  A body with a prompt and no messages, of serialized size 51, under a limit of 20: the
  stored body has the two properties as supplied, then \<^verbatim>\<open>messages: undefined\<close>.
\<close>

theorem startRequest_without_messages_witness:
  "\<exists>r. getRequestDetails ''id-1''
          (snd (startRequest json_stringify (defaultConfig\<lparr>maxRequestBodySize := 20\<rparr>)
                  sample_env prompt_request empty_store)) = Some r
       \<and> requestBody r =
           JObj [(''model'', JStr ''m1''), (''prompt'', JStr ''0123456789012345678901234''),
                 (''messages'', JUndefined)]
       \<and> defined_entries (requestBody r) =
           [(''model'', JStr ''m1''), (''prompt'', JStr ''0123456789012345678901234'')]
       \<and> json_stringify (requestBody r) = json_stringify (rq_requestBody prompt_request)"
proof -
  let ?cfg = "defaultConfig\<lparr>maxRequestBodySize := 20\<rparr>"
  let ?kvs = "[(''model'', JStr ''m1''), (''prompt'', JStr ''0123456789012345678901234'')]"
  have id: "uuidv4 sample_env = ''id-1''"
    by (simp add: sample_env_def)
  have b: "rq_requestBody prompt_request = JObj ?kvs"
    by (simp add: prompt_request_def)
  have e: "enableHistoryLogging ?cfg" "0 < maxRecordsPerKey ?cfg"
    by (simp_all add: defaultConfig_def)
  have big: "int (length (json_stringify (rq_requestBody prompt_request)))
      > maxRequestBodySize ?cfg"
    by (simp add: sample_sizes(2) defaultConfig_def)
  have m: "\<not> truthy (js_get (rq_requestBody prompt_request) ''messages'')"
    by (simp add: b)
  from startRequest_without_messages [where stringify = json_stringify,
      OF e(1) empty_store_ready e(2) big m]
  obtain r where r1: "getRequestDetails ''id-1''
        (snd (startRequest json_stringify ?cfg sample_env prompt_request empty_store)) = Some r"
    and r2: "\<forall>kvs. rq_requestBody prompt_request = JObj kvs \<longrightarrow>
        requestBody r =
          (if ''messages'' \<in> fst ` set kvs then JObj kvs
           else JObj (kvs @ [(''messages'', JUndefined)]))
        \<and> defined_entries (requestBody r) = defined_entries (rq_requestBody prompt_request)
        \<and> json_stringify (requestBody r) = json_stringify (rq_requestBody prompt_request)
        \<and> (\<forall>k. js_get (requestBody r) k = js_get (rq_requestBody prompt_request) k)"
    unfolding id by blast
  note c = r2 [rule_format, OF b]
  have x1: "requestBody r =
      JObj [(''model'', JStr ''m1''), (''prompt'', JStr ''0123456789012345678901234''),
            (''messages'', JUndefined)]"
    using c by simp
  have x2: "defined_entries (requestBody r) =
      [(''model'', JStr ''m1''), (''prompt'', JStr ''0123456789012345678901234'')]"
    unfolding x1 by (simp add: defined_entries_def)
  have x3: "json_stringify (requestBody r) = json_stringify (rq_requestBody prompt_request)"
    using c by blast
  from r1 x1 x2 x3 show ?thesis by blast
qed

text \<open>
  Claim C9 as stated has every such body stored entirely unchanged. An array of
  serialized size 27, under a limit of 20, has no \<^verbatim>\<open>messages\<close> field; the spread stores
  it as an object keyed by its indices, which is not the supplied body and serializes
  to another text.
\<close>

theorem startRequest_array_body_counterexample:
  "int (length (json_stringify (rq_requestBody array_request)))
     > maxRequestBodySize (defaultConfig\<lparr>maxRequestBodySize := 20\<rparr>)
   \<and> \<not> truthy (js_get (rq_requestBody array_request) ''messages'')
   \<and> (\<exists>r. getRequestDetails ''id-1''
          (snd (startRequest json_stringify (defaultConfig\<lparr>maxRequestBodySize := 20\<rparr>)
                  sample_env array_request empty_store)) = Some r
       \<and> requestBody r =
           JObj [(''0'', JStr ''0123456789''), (''1'', JStr ''0123456789''),
                 (''messages'', JUndefined)]
       \<and> requestBody r \<noteq> rq_requestBody array_request
       \<and> json_stringify (requestBody r) \<noteq> json_stringify (rq_requestBody array_request))"
proof -
  let ?cfg = "defaultConfig\<lparr>maxRequestBodySize := 20\<rparr>"
  have e: "enableHistoryLogging ?cfg" "0 < maxRecordsPerKey ?cfg"
    by (simp_all add: defaultConfig_def)
  have b: "rq_requestBody array_request = JArr [JStr ''0123456789'', JStr ''0123456789'']"
    by (simp add: array_request_def)
  have big: "int (length (json_stringify (rq_requestBody array_request)))
      > maxRequestBodySize ?cfg"
    by (simp add: b defaultConfig_def json_quote_def json_escape_def)
  have m: "\<not> truthy (js_get (rq_requestBody array_request) ''messages'')"
    by (simp add: b)
  have got: "getRequestDetails ''id-1''
      (snd (startRequest json_stringify ?cfg sample_env array_request empty_store)) =
      Some (historyRecord json_stringify ?cfg sample_env array_request)"
    using startRequest_stores(2) [OF e(1) empty_store_ready e(2), of json_stringify
        array_request]
    by (simp add: sample_env_def)
  have l: "[0..<2] = [0, Suc 0]"
    by (simp add: upt_rec)
  have rb: "requestBody (historyRecord json_stringify ?cfg sample_env array_request)
      = JObj [(''0'', JStr ''0123456789''), (''1'', JStr ''0123456789''),
              (''messages'', JUndefined)]"
    unfolding requestBody_historyRecord using big
    by (simp add: b l)
  have ne: "json_stringify
        (JObj [(''0'', JStr ''0123456789''), (''1'', JStr ''0123456789''),
               (''messages'', JUndefined)])
      \<noteq> json_stringify (rq_requestBody array_request)"
    by (simp add: b json_quote_def json_escape_def)
  from big m got rb ne show ?thesis
    by (simp add: b del: json_stringify.simps)
qed

end
